theory Spec2Isabelle
  imports Complex_Main "HOL-Library.AList" "HOL-Library.Log_Nat"
begin

section \<open>NeuraBuddy study components: a shallow embedding\<close>

text \<open>
  The repository's interactive logic lives in four React components (Quiz, FlashCards,
  Teaching, ClinicalCase) and the application context that keeps some of their data in
  the browser's local storage. Each component is modelled by a record of its
  \<^verbatim>\<open>useState\<close> cells and each event handler by a function from the record to the
  updated record.

  Conventions of the embedding:
  \<^item> An asynchronous handler runs atomically: the request, the awaited response and the
    state updates after it are one step. The remote service is a parameter of the
    handler, a function from the request to \<open>Inl error\<close> (the promise rejects) or
    \<open>Inr response\<close>. Every request a handler issues is appended to a log field
    (\<open>\<dots>_sent\<close>) of the state; the log is not part of the source, it records the calls.
  \<^item> What the user can trigger is decided by the JSX: a control that is not rendered or
    is disabled cannot fire its handler. These conditions are the \<open>\<dots>_shown\<close> and
    \<open>\<dots>_enabled\<close> predicates, and the \<open>\<dots>_ui\<close> functions run a handler only when its
    control is rendered and enabled.
  \<^item> JavaScript numbers that hold counts are \<open>nat\<close> or \<open>int\<close>. Scores are IEEE doubles:
    a score is the rational its double denotes, and the arithmetic on scores rounds
    every result to the nearest double (see the section on numbers).
  \<^item> Message ids and timestamps (\<^verbatim>\<open>Date.now()\<close>, \<^verbatim>\<open>new Date()\<close>) are left out.
\<close>

subsection \<open>Strings and error payloads\<close>

text \<open>\<^verbatim>\<open>String.prototype.trim\<close>, on the ASCII white space characters.\<close>

definition is_space :: "char \<Rightarrow> bool" where
  "is_space c = (c = CHR '' '' \<or> c = CHR 0x09 \<or> c = CHR 0x0A \<or> c = CHR 0x0B
                 \<or> c = CHR 0x0C \<or> c = CHR 0x0D)"

definition trim :: "string \<Rightarrow> string" where
  "trim s = rev (dropWhile is_space (rev (dropWhile is_space s)))"

text \<open>\<^verbatim>\<open>Array.prototype.join\<close>.\<close>

fun js_join :: "string \<Rightarrow> string list \<Rightarrow> string" where
  "js_join sep [] = []"
| "js_join sep [x] = x"
| "js_join sep (x # y # ys) = x @ sep @ js_join sep (y # ys)"

text \<open>
  The rejected promise of the HTTP client: \<^verbatim>\<open>error.response?.data?.detail\<close> (a string,
  an array of validation entries or an object with a \<^verbatim>\<open>msg\<close>) and \<^verbatim>\<open>error.message\<close>.
  A timeout or an unreachable server has no response, hence no detail.
\<close>

record detail_entry =
  de_msg :: "string option"
  de_json :: string

datatype detail = DetailStr string | DetailArr "detail_entry list" | DetailObj "string option"

record api_error =
  err_detail :: "detail option"
  err_message :: string

text \<open>\<^verbatim>\<open>err.response?.data?.detail || fallback\<close>: the empty string is falsy.\<close>

definition detail_or :: "api_error \<Rightarrow> string \<Rightarrow> detail" where
  "detail_or e fallback =
     (case err_detail e of
        None \<Rightarrow> DetailStr fallback
      | Some (DetailStr x) \<Rightarrow> if x = [] then DetailStr fallback else DetailStr x
      | Some (DetailArr ds) \<Rightarrow> DetailArr ds
      | Some (DetailObj m) \<Rightarrow> DetailObj m)"

subsection \<open>Numbers\<close>

text \<open>
  A JavaScript number is an IEEE 754 binary64 value. A finite double is modelled by the
  rational number it denotes. \<open>fl x\<close> is the double nearest to the rational \<open>x\<close>: with
  \<open>2 ^ e \<le> \<bar>x\<bar> < 2 ^ (e + 1)\<close> the doubles around \<open>x\<close> are the multiples of
  \<open>2 ^ (e - 52)\<close> (of \<open>2 ^ -1074\<close> in the subnormal range), and a tie goes to the even
  multiple. Sums, products and quotients of doubles are the exact results rounded by
  \<open>fl\<close>. Infinity, NaN and the sign of zero are not modelled: the definitions agree with
  the machine on finite values below \<open>2 ^ 1024\<close> in magnitude, and a division by zero
  is outside the model (the pages divide by the number of questions or cards only when
  there are some).
\<close>

definition pow2 :: "int \<Rightarrow> rat" where
  "pow2 e = (if 0 \<le> e then 2 ^ nat e else 1 / 2 ^ nat (- e))"

text \<open>For \<open>a > 0\<close>, the exponent \<open>e\<close> with \<open>2 ^ e \<le> a < 2 ^ (e + 1)\<close>.\<close>

definition ilog2 :: "rat \<Rightarrow> int" where
  "ilog2 a = (if 1 \<le> a then int (floorlog 2 (nat \<lfloor>a\<rfloor>)) - 1
              else - int (floorlog 2 (nat (\<lceil>1 / a\<rceil> - 1))))"

definition round_half_even :: "rat \<Rightarrow> int" where
  "round_half_even m =
     (let f = \<lfloor>m\<rfloor>; d = m - of_int f
      in if d < 1 / 2 then f else if 1 / 2 < d then f + 1 else if even f then f else f + 1)"

definition fl :: "rat \<Rightarrow> rat" where
  "fl x =
     (if x = 0 then 0
      else let a = \<bar>x\<bar>;
               u = pow2 (max (ilog2 a) (- 1022) - 52);
               r = of_int (round_half_even (a / u)) * u
           in if x < 0 then - r else r)"

definition js_add :: "rat \<Rightarrow> rat \<Rightarrow> rat" where
  "js_add a b = fl (a + b)"

definition js_mul :: "rat \<Rightarrow> rat \<Rightarrow> rat" where
  "js_mul a b = fl (a * b)"

definition js_div :: "rat \<Rightarrow> rat \<Rightarrow> rat" where
  "js_div a b = fl (a / b)"

text \<open>\<^verbatim>\<open>Math.round\<close> of a double: the nearest integer, a tie going up.\<close>

definition Math_round :: "rat \<Rightarrow> int" where
  "Math_round x = \<lfloor>x + 1 / 2\<rfloor>"

text \<open>
  \<^verbatim>\<open>Number.prototype.toFixed(d)\<close> as the rational \<open>n / 10 ^ d\<close> it prints, where \<open>n\<close> is the
  integer nearest to the stored double times \<open>10 ^ d\<close> (the larger one on a tie); a
  negative number is printed as the sign and the digits of its absolute value. The
  receiver is a stored number, hence \<open>fl x\<close>.
\<close>

definition toFixed :: "nat \<Rightarrow> rat \<Rightarrow> rat" where
  "toFixed d x =
     (let y = fl x
      in if y < 0 then - (of_int \<lfloor>- y * 10 ^ d + 1 / 2\<rfloor> / 10 ^ d)
         else of_int \<lfloor>y * 10 ^ d + 1 / 2\<rfloor> / 10 ^ d)"

subsection \<open>FlashCards\<close>

record card =
  card_front :: string
  card_back :: string

text \<open>
  The reply of the evaluation endpoint. \<open>score\<close> is the decimal number in the reply; the
  component sees the double nearest to it.
\<close>

record evaluation =
  score :: rat
  ev_feedback :: string
  is_correct :: bool
  is_partial :: bool

record card_result =
  cr_question :: string
  user_answer :: string
  cr_correct_answer :: string
  cr_score :: rat
  cr_feedback :: string

record analysis =
  performance_summary :: string
  strengths :: "string list"
  areas_to_improve :: "string list"
  recommended_topics :: "string list"

record generate_request =
  gr_topic :: "string option"
  num_cards :: int
  gr_difficulty_level :: string

record generate_response =
  flash_cards :: "card list option"
  gn_topic :: "string option"

record evaluate_request =
  ev_user_answer :: string
  ev_correct_answer :: string
  ev_question :: string

record analyze_request =
  an_topic :: string
  total_score :: rat
  max_score :: nat
  card_results :: "card_result list"

datatype flashcards_call =
  GenerateFlashCards generate_request
| EvaluateFlashCardAnswer evaluate_request
| AnalyzeFlashCardSession analyze_request

text \<open>The value the component keeps in the application context: \<^verbatim>\<open>{ cards, topic, currentIndex }\<close>.\<close>

record flashcards_data =
  fd_cards :: "card list"
  fd_topic :: string
  fd_currentIndex :: nat

text \<open>
  The component's state cells, the context value \<open>f_flashCardsData\<close> and the local
  storage entry under the key \<^verbatim>\<open>neurabuddy_flash_cards\<close> (\<open>None\<close>: no such key;
  \<open>Some None\<close>: the text \<^verbatim>\<open>null\<close>; \<open>Some (Some d)\<close>: the JSON text of \<open>d\<close>, which
  \<^verbatim>\<open>JSON.parse\<close> reads back as \<open>d\<close>). \<open>f_setItemThrows v\<close> tells whether
  \<^verbatim>\<open>localStorage.setItem\<close> throws when asked to store \<open>v\<close> (storage full or switched off);
  it belongs to the browser, no handler changes it.
\<close>

record flashcards_state =
  f_topic :: string
  f_numCards :: int
  f_difficulty :: string
  f_cards :: "card list"
  f_currentIndex :: nat
  f_loading :: bool
  f_error :: "detail option"
  f_userAnswer :: string
  f_showAnswer :: bool
  f_evaluation :: "evaluation option"
  f_evaluating :: bool
  f_cardResults :: "card_result list"
  f_totalScore :: rat
  f_sessionComplete :: bool
  f_analysis :: "analysis option"
  f_analyzing :: bool
  f_flashCardsData :: "flashcards_data option"
  f_localStorage :: "flashcards_data option option"
  f_setItemThrows :: "flashcards_data option \<Rightarrow> bool"
  f_sent :: "flashcards_call list"

text \<open>
  \<^verbatim>\<open>setFlashCardsData(next)\<close> of the context: the context value becomes \<open>next\<close> and
  \<^verbatim>\<open>JSON.stringify(next ?? null)\<close> is written under the key. The write is inside a
  \<^verbatim>\<open>try\<close> with an empty \<^verbatim>\<open>catch\<close>: when \<^verbatim>\<open>setItem\<close> throws, the stored text stays as it was.
\<close>

definition setFlashCardsData :: "flashcards_data option \<Rightarrow> flashcards_state \<Rightarrow> flashcards_state" where
  "setFlashCardsData next s =
     s\<lparr>f_flashCardsData := next,
       f_localStorage := (if f_setItemThrows s next then f_localStorage s else Some next)\<rparr>"

text \<open>
  The context's initial value: \<^verbatim>\<open>saved ? JSON.parse(saved) : null\<close>. (The \<^verbatim>\<open>catch\<close> around
  it answers \<^verbatim>\<open>null\<close> for a text that does not parse; the entry holds only what
  \<open>setFlashCardsData\<close> wrote.)
\<close>

definition flashCardsData_init :: "flashcards_data option option \<Rightarrow> flashcards_data option" where
  "flashCardsData_init saved = (case saved of None \<Rightarrow> None | Some v \<Rightarrow> v)"

text \<open>
  Mounting the component: the \<^verbatim>\<open>useState\<close> initialisers. Only \<open>topic\<close>, \<open>cards\<close> and
  \<open>currentIndex\<close> read the context value.
\<close>

definition FlashCards_mount ::
  "flashcards_data option \<Rightarrow> flashcards_data option option \<Rightarrow> (flashcards_data option \<Rightarrow> bool) \<Rightarrow>
   flashcards_state" where
  "FlashCards_mount ctx stored throws =
     \<lparr>f_topic = (case ctx of None \<Rightarrow> [] | Some d \<Rightarrow> fd_topic d),
      f_numCards = 10,
      f_difficulty = ''undergrad'',
      f_cards = (case ctx of None \<Rightarrow> [] | Some d \<Rightarrow> fd_cards d),
      f_currentIndex = (case ctx of None \<Rightarrow> 0 | Some d \<Rightarrow> fd_currentIndex d),
      f_loading = False,
      f_error = None,
      f_userAnswer = [],
      f_showAnswer = False,
      f_evaluation = None,
      f_evaluating = False,
      f_cardResults = [],
      f_totalScore = 0,
      f_sessionComplete = False,
      f_analysis = None,
      f_analyzing = False,
      f_flashCardsData = ctx,
      f_localStorage = stored,
      f_setItemThrows = throws,
      f_sent = []\<rparr>"

text \<open>Reloading the page: the context reads the storage, then the component mounts.\<close>

definition FlashCards_reload ::
  "flashcards_data option option \<Rightarrow> (flashcards_data option \<Rightarrow> bool) \<Rightarrow> flashcards_state" where
  "FlashCards_reload stored throws = FlashCards_mount (flashCardsData_init stored) stored throws"

text \<open>The \<^verbatim>\<open>useEffect\<close> that saves the deck and the cursor.\<close>

definition FlashCards_effect :: "flashcards_state \<Rightarrow> flashcards_state" where
  "FlashCards_effect s =
     (if length (f_cards s) > 0 \<and> \<not> f_sessionComplete s
      then setFlashCardsData
             (Some \<lparr>fd_cards = f_cards s, fd_topic = f_topic s, fd_currentIndex = f_currentIndex s\<rparr>) s
      else s)"

definition generate :: "(generate_request \<Rightarrow> api_error + generate_response) \<Rightarrow> flashcards_state \<Rightarrow> flashcards_state" where
  "generate api s =
     (let req = \<lparr>gr_topic = (if trim (f_topic s) = [] then None else Some (trim (f_topic s))),
                 num_cards = f_numCards s,
                 gr_difficulty_level = f_difficulty s\<rparr>;
          s1 = s\<lparr>f_loading := True, f_error := None,
                 f_sent := f_sent s @ [GenerateFlashCards req]\<rparr>
      in case api req of
           Inr res \<Rightarrow>
             (let newCards = (case flash_cards res of None \<Rightarrow> [] | Some cs \<Rightarrow> cs);
                  newTopic = (case gn_topic res of None \<Rightarrow> f_topic s
                              | Some t \<Rightarrow> if t = [] then f_topic s else t)
              in setFlashCardsData
                   (Some \<lparr>fd_cards = newCards, fd_topic = newTopic, fd_currentIndex = 0\<rparr>)
                   (s1\<lparr>f_cards := newCards, f_currentIndex := 0, f_userAnswer := [],
                       f_showAnswer := False, f_evaluation := None, f_cardResults := [],
                       f_totalScore := 0, f_sessionComplete := False, f_analysis := None,
                       f_loading := False\<rparr>))
         | Inl err \<Rightarrow>
             s1\<lparr>f_error := Some (detail_or err ''Failed to generate flash cards''),
                f_cards := [], f_loading := False\<rparr>)"

text \<open>
  \<^verbatim>\<open>submitAnswer\<close> of FlashCards. \<open>s1\<close> is the state while the request is out, with
  \<open>evaluating\<close> set; every way out clears it (\<^verbatim>\<open>finally\<close>). Reading \<^verbatim>\<open>currentCard.back\<close> of
  a card that does not exist throws inside the \<^verbatim>\<open>try\<close>, so it ends in the \<^verbatim>\<open>catch\<close>
  without a request. The total is a sum of doubles.
\<close>

definition submitAnswer_fc :: "(evaluate_request \<Rightarrow> api_error + evaluation) \<Rightarrow> flashcards_state \<Rightarrow> flashcards_state" where
  "submitAnswer_fc api s =
     (if trim (f_userAnswer s) = [] \<or> f_evaluating s then s
      else if f_currentIndex s < length (f_cards s) then
        (let currentCard = f_cards s ! f_currentIndex s;
             req = \<lparr>ev_user_answer = trim (f_userAnswer s),
                    ev_correct_answer = card_back currentCard,
                    ev_question = card_front currentCard\<rparr>;
             s1 = s\<lparr>f_evaluating := True, f_sent := f_sent s @ [EvaluateFlashCardAnswer req]\<rparr>
         in case api req of
              Inr reply \<Rightarrow>
                (let result = reply\<lparr>score := fl (score reply)\<rparr>
                 in
                s1\<lparr>f_evaluation := Some result,
                   f_showAnswer := True,
                   f_totalScore := js_add (f_totalScore s) (score result),
                   f_cardResults := f_cardResults s @
                     [\<lparr>cr_question = card_front currentCard,
                       user_answer = trim (f_userAnswer s),
                       cr_correct_answer = card_back currentCard,
                       cr_score = score result,
                       cr_feedback = ev_feedback result\<rparr>],
                   f_evaluating := False\<rparr>)
            | Inl err \<Rightarrow>
                s1\<lparr>f_error := Some (DetailStr ''Failed to evaluate answer''), f_evaluating := False\<rparr>)
      else s\<lparr>f_error := Some (DetailStr ''Failed to evaluate answer''), f_evaluating := False\<rparr>)"

text \<open>\<^verbatim>\<open>goToCard(idx)\<close>: \<^verbatim>\<open>cardResults[idx]\<close> is defined exactly for \<open>idx < length\<close>.\<close>

definition goToCard :: "nat \<Rightarrow> flashcards_state \<Rightarrow> flashcards_state" where
  "goToCard idx s =
     (if idx < length (f_cardResults s) then
        (let prevResult = f_cardResults s ! idx
         in s\<lparr>f_currentIndex := idx,
              f_userAnswer := user_answer prevResult,
              f_showAnswer := True,
              f_evaluation := Some \<lparr>score = cr_score prevResult,
                                     ev_feedback = cr_feedback prevResult,
                                     is_correct = (cr_score prevResult \<ge> 1),
                                     is_partial = (cr_score prevResult > 0 \<and> cr_score prevResult < 1)\<rparr>\<rparr>)
      else s\<lparr>f_currentIndex := idx, f_userAnswer := [], f_showAnswer := False, f_evaluation := None\<rparr>)"

definition analyzeSession :: "(analyze_request \<Rightarrow> api_error + analysis) \<Rightarrow> flashcards_state \<Rightarrow> flashcards_state" where
  "analyzeSession api s =
     (let req = \<lparr>an_topic = (if f_topic s = [] then ''neuroanatomy'' else f_topic s),
                 total_score = f_totalScore s,
                 max_score = length (f_cards s),
                 card_results = f_cardResults s\<rparr>;
          s1 = s\<lparr>f_analyzing := True, f_sent := f_sent s @ [AnalyzeFlashCardSession req]\<rparr>
      in case api req of
           Inr result \<Rightarrow> s1\<lparr>f_analysis := Some result, f_analyzing := False\<rparr>
         | Inl err \<Rightarrow> s1\<lparr>f_error := Some (DetailStr ''Failed to analyze session''), f_analyzing := False\<rparr>)"

text \<open>
  \<^verbatim>\<open>nextCard\<close>: \<^verbatim>\<open>currentIndex < cards.length - 1\<close>; the subtraction on \<open>nat\<close> stops at 0,
  which gives the same truth value as the source for an empty deck.
\<close>

definition nextCard :: "(analyze_request \<Rightarrow> api_error + analysis) \<Rightarrow> flashcards_state \<Rightarrow> flashcards_state" where
  "nextCard api s =
     (if f_currentIndex s < length (f_cards s) - 1 then goToCard (f_currentIndex s + 1) s
      else analyzeSession api (s\<lparr>f_sessionComplete := True\<rparr>))"

definition prevCard :: "flashcards_state \<Rightarrow> flashcards_state" where
  "prevCard s = (if f_currentIndex s > 0 then goToCard (f_currentIndex s - 1) s else s)"

definition startNewSession :: "string option \<Rightarrow> flashcards_state \<Rightarrow> flashcards_state" where
  "startNewSession recommendedTopic s =
     setFlashCardsData None
       (s\<lparr>f_topic := (case recommendedTopic of None \<Rightarrow> f_topic s
                       | Some t \<Rightarrow> if t = [] then f_topic s else t),
          f_cards := [], f_currentIndex := 0, f_userAnswer := [], f_showAnswer := False,
          f_evaluation := None, f_cardResults := [], f_totalScore := 0,
          f_sessionComplete := False, f_analysis := None\<rparr>)"

definition startOver :: "flashcards_state \<Rightarrow> flashcards_state" where
  "startOver s = startNewSession None s"



text \<open>
  The number field's \<^verbatim>\<open>onChange\<close>: \<^verbatim>\<open>setNumCards(parseInt(e.target.value) || 10)\<close>. The
  argument is what \<^verbatim>\<open>parseInt\<close> returned (\<open>None\<close> for \<^verbatim>\<open>NaN\<close>); \<^verbatim>\<open>NaN\<close> and 0 are falsy.
\<close>

definition setNumCards_onChange :: "int option \<Rightarrow> flashcards_state \<Rightarrow> flashcards_state" where
  "setNumCards_onChange parsed s =
     s\<lparr>f_numCards := (case parsed of None \<Rightarrow> 10 | Some n \<Rightarrow> if n = 0 then 10 else n)\<rparr>"

text \<open>
  The controls of the FlashCards page: the setup form while there are no cards, the card
  viewer while there are cards and the session is not complete, the summary once the
  session is complete and analysed. The answer box and the submit button are rendered
  only while \<open>showAnswer\<close> is off; the next button only with \<open>showAnswer\<close> on and an
  evaluation to show. After every handled event the \<^verbatim>\<open>useEffect\<close> runs.
\<close>

datatype flashcards_event =
  ClickGenerate
| ChangeNumCards "int option"
| ChangeUserAnswer string
| ClickSubmit
| ClickNextCard
| ClickPrevCard
| ClickStartOver
| ClickStartNewSession "string option"

definition viewer_shown :: "flashcards_state \<Rightarrow> bool" where
  "viewer_shown s = (length (f_cards s) > 0 \<and> \<not> f_sessionComplete s)"

definition flashcards_enabled :: "flashcards_event \<Rightarrow> flashcards_state \<Rightarrow> bool" where
  "flashcards_enabled e s =
     (case e of
        ClickGenerate \<Rightarrow> f_cards s = [] \<and> \<not> f_sessionComplete s \<and> \<not> f_loading s
      | ChangeNumCards _ \<Rightarrow> f_cards s = [] \<and> \<not> f_sessionComplete s
      | ChangeUserAnswer _ \<Rightarrow> viewer_shown s \<and> \<not> f_showAnswer s \<and> \<not> f_evaluating s
      | ClickSubmit \<Rightarrow>
          viewer_shown s \<and> \<not> f_showAnswer s \<and> \<not> (trim (f_userAnswer s) = [] \<or> f_evaluating s)
      | ClickNextCard \<Rightarrow> viewer_shown s \<and> f_showAnswer s \<and> f_evaluation s \<noteq> None
      | ClickPrevCard \<Rightarrow> viewer_shown s \<and> f_currentIndex s \<noteq> 0
      | ClickStartOver \<Rightarrow> viewer_shown s
      | ClickStartNewSession _ \<Rightarrow> f_sessionComplete s \<and> f_analysis s \<noteq> None)"

definition flashcards_handler ::
  "(generate_request \<Rightarrow> api_error + generate_response) \<Rightarrow>
   (evaluate_request \<Rightarrow> api_error + evaluation) \<Rightarrow>
   (analyze_request \<Rightarrow> api_error + analysis) \<Rightarrow>
   flashcards_event \<Rightarrow> flashcards_state \<Rightarrow> flashcards_state" where
  "flashcards_handler genApi evalApi anaApi e s =
     (case e of
        ClickGenerate \<Rightarrow> generate genApi s
      | ChangeNumCards parsed \<Rightarrow> setNumCards_onChange parsed s
      | ChangeUserAnswer a \<Rightarrow> s\<lparr>f_userAnswer := a\<rparr>
      | ClickSubmit \<Rightarrow> submitAnswer_fc evalApi s
      | ClickNextCard \<Rightarrow> nextCard anaApi s
      | ClickPrevCard \<Rightarrow> prevCard s
      | ClickStartOver \<Rightarrow> startOver s
      | ClickStartNewSession t \<Rightarrow> startNewSession t s)"

definition flashcards_ui ::
  "(generate_request \<Rightarrow> api_error + generate_response) \<Rightarrow>
   (evaluate_request \<Rightarrow> api_error + evaluation) \<Rightarrow>
   (analyze_request \<Rightarrow> api_error + analysis) \<Rightarrow>
   flashcards_event \<Rightarrow> flashcards_state \<Rightarrow> flashcards_state" where
  "flashcards_ui genApi evalApi anaApi e s =
     (if flashcards_enabled e s
      then FlashCards_effect (flashcards_handler genApi evalApi anaApi e s)
      else s)"

text \<open>
  The cards with a stored result are those before position \<open>length cardResults\<close>. The
  cursor is on one of them or on the first card without a result, and the answer is
  shown exactly on a card that has one.
\<close>

definition cursor_gated :: "flashcards_state \<Rightarrow> bool" where
  "cursor_gated s =
     (f_currentIndex s \<le> length (f_cardResults s) \<and>
      f_showAnswer s = (f_currentIndex s < length (f_cardResults s)))"


text \<open>
  The stored results belong to the cards in deck order: result \<open>i\<close> was obtained on card
  \<open>i\<close>.
\<close>

definition results_in_card_order :: "flashcards_state \<Rightarrow> bool" where
  "results_in_card_order s =
     (length (f_cardResults s) \<le> length (f_cards s) \<and>
      list_all2 (\<lambda>r c. cr_question r = card_front c \<and> cr_correct_answer r = card_back c)
        (f_cardResults s) (take (length (f_cardResults s)) (f_cards s)))"

text \<open>
  The states of a deck that was not restored from storage: the page opened without a
  saved deck, or the session was started over, and then any events of the page
  followed, with any replies of the service.
\<close>

inductive fresh_deck :: "flashcards_state \<Rightarrow> bool" where
  opened: "fresh_deck (FlashCards_mount None stored throws)"
| started_over: "fresh_deck (startNewSession recommendedTopic s)"
| event: "fresh_deck s \<Longrightarrow> fresh_deck (flashcards_ui genApi evalApi anaApi e s)"

text \<open>The FlashCards events that discard the running session.\<close>

definition flashcards_restarts :: "flashcards_event \<Rightarrow> bool" where
  "flashcards_restarts e =
     (case e of ClickGenerate \<Rightarrow> True | ClickStartOver \<Rightarrow> True
      | ClickStartNewSession _ \<Rightarrow> True | _ \<Rightarrow> False)"

subsection \<open>Quiz\<close>

record question =
  question_id :: string
  question_text :: string
  question_type :: string
  options :: "string list option"
  correct_answer :: string

record quiz =
  quiz_id :: string
  quiz_topic :: "string option"
  difficulty_level :: string
  questions :: "question list"

record feedback =
  fb_is_correct :: bool
  fb_feedback :: string
  fb_explanation :: "string option"
  fb_correct_answer :: string
  fb_related_anatomy :: "string option"

record start_quiz_request =
  sq_user_id :: string
  sq_topic :: "string option"
  sq_difficulty_level :: string
  sq_system_filter :: "string option"
  num_questions :: int

record submit_answer_request =
  sa_quiz_id :: string
  sa_question_id :: string
  sa_answer :: string
  sa_user_id :: string

text \<open>The response of \<^verbatim>\<open>/quiz/answer\<close>; the component reads \<^verbatim>\<open>response.feedback\<close> only.\<close>

record submit_answer_response =
  sr_feedback :: "feedback option"

datatype quiz_call = StartQuiz start_quiz_request | SubmitAnswer submit_answer_request

text \<open>An entry of the \<^verbatim>\<open>answers\<close> object: \<^verbatim>\<open>{ answer, feedback }\<close>.\<close>

record quiz_answer =
  qa_answer :: string
  qa_feedback :: "feedback option"

text \<open>
  The \<^verbatim>\<open>answers\<close> object is an association list keyed by \<^verbatim>\<open>question_id\<close>; the spread
  \<^verbatim>\<open>{...prev, [questionId]: v}\<close> is \<open>AList.update\<close> (an existing key keeps its place and
  gets the new value, a new key is added at the end). \<open>q_alerts\<close> collects the
  arguments of \<^verbatim>\<open>alert\<close>.
\<close>

text \<open>
  Reading \<^verbatim>\<open>answers[id]\<close>: the object's own entry, or else what a plain object inherits
  from \<^verbatim>\<open>Object.prototype\<close> under that name (a function, or the prototype itself for
  \<^verbatim>\<open>__proto__\<close>), or else \<^verbatim>\<open>undefined\<close>. An inherited member is truthy and has neither an
  \<^verbatim>\<open>answer\<close> nor a \<^verbatim>\<open>feedback\<close>.
\<close>

definition Object_prototype_members :: "string list" where
  "Object_prototype_members =
     [''constructor'', ''hasOwnProperty'', ''isPrototypeOf'', ''propertyIsEnumerable'',
      ''toLocaleString'', ''toString'', ''valueOf'', ''__proto__'', ''__defineGetter__'',
      ''__defineSetter__'', ''__lookupGetter__'', ''__lookupSetter__'']"

datatype answers_entry = OwnEntry quiz_answer | InheritedMember | NoEntry

definition answers_get :: "(string \<times> quiz_answer) list \<Rightarrow> string \<Rightarrow> answers_entry" where
  "answers_get answers key =
     (case map_of answers key of
        Some a \<Rightarrow> OwnEntry a
      | None \<Rightarrow> if key \<in> set Object_prototype_members then InheritedMember else NoEntry)"

record quiz_state =
  q_quiz :: "quiz option"
  q_currentQuestionIndex :: nat
  q_selectedAnswer :: string
  q_answers :: "(string \<times> quiz_answer) list"
  q_feedback :: "feedback option"
  q_loading :: bool
  q_starting :: bool
  q_topic :: string
  q_difficulty :: string
  q_systemFilter :: "string option"
  q_numQuestions :: int
  q_userId :: string
  q_alerts :: "detail list"
  q_sent :: "quiz_call list"

definition Quiz_mount :: "string \<Rightarrow> quiz_state" where
  "Quiz_mount uid =
     \<lparr>q_quiz = None, q_currentQuestionIndex = 0, q_selectedAnswer = [], q_answers = [],
      q_feedback = None, q_loading = False, q_starting = False, q_topic = [],
      q_difficulty = ''undergrad'', q_systemFilter = None, q_numQuestions = 5,
      q_userId = uid, q_alerts = [], q_sent = []\<rparr>"

text \<open>
  The number field's \<^verbatim>\<open>onChange\<close>: \<^verbatim>\<open>setNumQuestions(parseInt(e.target.value) || 5)\<close>.
  The argument is what \<^verbatim>\<open>parseInt\<close> returned (\<open>None\<close> for \<^verbatim>\<open>NaN\<close>); \<^verbatim>\<open>NaN\<close> and 0 are
  falsy. The field's \<^verbatim>\<open>min\<close> and \<^verbatim>\<open>max\<close> attributes do not restrict the typed value.
\<close>

definition setNumQuestions_onChange :: "int option \<Rightarrow> quiz_state \<Rightarrow> quiz_state" where
  "setNumQuestions_onChange parsed s =
     s\<lparr>q_numQuestions := (case parsed of None \<Rightarrow> 5 | Some n \<Rightarrow> if n = 0 then 5 else n)\<rparr>"

text \<open>The message \<^verbatim>\<open>startQuiz\<close> shows when the request fails.\<close>

definition startQuiz_msg :: "api_error \<Rightarrow> string" where
  "startQuiz_msg e =
     (case err_detail e of
        Some (DetailArr ds) \<Rightarrow>
          js_join ''; '' (map (\<lambda>d. case de_msg d of None \<Rightarrow> de_json d
                                     | Some m \<Rightarrow> if m = [] then de_json d else m) ds)
      | other \<Rightarrow>
          (let m = (case other of Some (DetailStr x) \<Rightarrow> x
                     | Some (DetailObj (Some x)) \<Rightarrow> x
                     | _ \<Rightarrow> [])
           in if m \<noteq> [] then m
              else if err_message e \<noteq> [] then err_message e
              else ''Failed to start quiz''))"

definition startQuiz_request :: "quiz_state \<Rightarrow> start_quiz_request" where
  "startQuiz_request s =
     \<lparr>sq_user_id = q_userId s,
      sq_topic = (if trim (q_topic s) = [] then None else Some (trim (q_topic s))),
      sq_difficulty_level = q_difficulty s,
      sq_system_filter = q_systemFilter s,
      num_questions = q_numQuestions s\<rparr>"

definition startQuiz :: "(start_quiz_request \<Rightarrow> api_error + quiz) \<Rightarrow> quiz_state \<Rightarrow> quiz_state" where
  "startQuiz api s =
     (let s1 = s\<lparr>q_starting := True, q_sent := q_sent s @ [StartQuiz (startQuiz_request s)]\<rparr>
      in case api (startQuiz_request s) of
           Inr response \<Rightarrow>
             s1\<lparr>q_quiz := Some response, q_currentQuestionIndex := 0, q_selectedAnswer := [],
                q_answers := [], q_feedback := None, q_starting := False\<rparr>
         | Inl error \<Rightarrow>
             s1\<lparr>q_alerts := q_alerts s @ [DetailStr (startQuiz_msg error)], q_starting := False\<rparr>)"

text \<open>
  \<^verbatim>\<open>submitAnswer\<close> of Quiz. \<open>s1\<close> is the state while the request is out, with \<open>loading\<close>
  set; both ways out of the \<^verbatim>\<open>try\<close> clear it (\<^verbatim>\<open>finally\<close>).
  \<^verbatim>\<open>quiz.questions[currentQuestionIndex].question_id\<close> is read after \<^verbatim>\<open>setLoading(true)\<close> and
  before the \<^verbatim>\<open>try\<close>: for an index outside the list the handler throws there and leaves
  \<open>loading\<close> set.
\<close>

definition submitAnswer_quiz :: "(submit_answer_request \<Rightarrow> api_error + submit_answer_response) \<Rightarrow> quiz_state \<Rightarrow> quiz_state" where
  "submitAnswer_quiz api s =
     (if trim (q_selectedAnswer s) = [] \<or> q_quiz s = None \<or> q_loading s then s
      else case q_quiz s of
        None \<Rightarrow> s
      | Some qz \<Rightarrow>
          if q_currentQuestionIndex s < length (questions qz) then
            (let questionId = question_id (questions qz ! q_currentQuestionIndex s);
                 req = \<lparr>sa_quiz_id = quiz_id qz, sa_question_id = questionId,
                        sa_answer = trim (q_selectedAnswer s), sa_user_id = q_userId s\<rparr>;
                 s1 = s\<lparr>q_loading := True, q_sent := q_sent s @ [SubmitAnswer req]\<rparr>
             in case api req of
                  Inr response \<Rightarrow>
                    s1\<lparr>q_answers := AList.update questionId
                                       \<lparr>qa_answer = trim (q_selectedAnswer s),
                                        qa_feedback = sr_feedback response\<rparr> (q_answers s),
                       q_feedback := sr_feedback response,
                       q_loading := False\<rparr>
                | Inl error \<Rightarrow>
                    s1\<lparr>q_alerts := q_alerts s @ [detail_or error ''Failed to submit answer''],
                       q_loading := False\<rparr>)
          else s\<lparr>q_loading := True\<rparr>)"

text \<open>
  Showing question \<open>idx\<close>: the cursor moves and the answer field and the feedback panel
  are filled from \<^verbatim>\<open>answers[id]?.answer || ''\<close> and \<^verbatim>\<open>answers[id]?.feedback || null\<close>.
  \<^verbatim>\<open>nextQuestion\<close>, \<^verbatim>\<open>previousQuestion\<close> and the question dots all do this.
\<close>

definition showQuestion :: "quiz \<Rightarrow> nat \<Rightarrow> quiz_state \<Rightarrow> quiz_state" where
  "showQuestion qz idx s =
     (let qid = question_id (questions qz ! idx)
      in s\<lparr>q_currentQuestionIndex := idx,
           q_selectedAnswer := (case answers_get (q_answers s) qid of
                                  OwnEntry a \<Rightarrow> qa_answer a | _ \<Rightarrow> []),
           q_feedback := (case answers_get (q_answers s) qid of
                            OwnEntry a \<Rightarrow> qa_feedback a | _ \<Rightarrow> None)\<rparr>)"

text \<open>
  \<^verbatim>\<open>currentQuestionIndex < quiz.questions.length - 1\<close>: on \<open>nat\<close> the subtraction stops
  at 0, with the same truth value as the source when there are no questions.
\<close>

definition nextQuestion :: "quiz_state \<Rightarrow> quiz_state" where
  "nextQuestion s =
     (case q_quiz s of
        None \<Rightarrow> s
      | Some qz \<Rightarrow>
          if q_currentQuestionIndex s < length (questions qz) - 1
          then showQuestion qz (q_currentQuestionIndex s + 1) s
          else s)"

text \<open>
  \<^verbatim>\<open>previousQuestion\<close> reads \<^verbatim>\<open>quiz.questions[currentQuestionIndex - 1].question_id\<close>; when
  the cursor is past the list that question does not exist and the handler throws
  after \<^verbatim>\<open>setCurrentQuestionIndex\<close>.
\<close>

definition previousQuestion :: "quiz_state \<Rightarrow> quiz_state" where
  "previousQuestion s =
     (case q_quiz s of
        None \<Rightarrow> s
      | Some qz \<Rightarrow>
          if q_currentQuestionIndex s > 0 then
            (if q_currentQuestionIndex s - 1 < length (questions qz)
             then showQuestion qz (q_currentQuestionIndex s - 1) s
             else s\<lparr>q_currentQuestionIndex := q_currentQuestionIndex s - 1\<rparr>)
          else s)"

text \<open>The \<^verbatim>\<open>onClick\<close> of the question dot \<open>idx\<close>; one dot is rendered per question.\<close>

definition questionDot_onClick :: "nat \<Rightarrow> quiz_state \<Rightarrow> quiz_state" where
  "questionDot_onClick idx s =
     (case q_quiz s of
        None \<Rightarrow> s
      | Some qz \<Rightarrow> if idx < length (questions qz) then showQuestion qz idx s else s)"

definition resetQuiz :: "quiz_state \<Rightarrow> quiz_state" where
  "resetQuiz s =
     s\<lparr>q_quiz := None, q_currentQuestionIndex := 0, q_selectedAnswer := [], q_answers := [],
       q_feedback := None\<rparr>"

text \<open>Values computed while rendering a started quiz.\<close>

definition hasAnswered :: "quiz \<Rightarrow> quiz_state \<Rightarrow> bool" where
  "hasAnswered qz s =
     (answers_get (q_answers s) (question_id (questions qz ! q_currentQuestionIndex s)) \<noteq> NoEntry)"

definition isLastQuestion :: "quiz \<Rightarrow> quiz_state \<Rightarrow> bool" where
  "isLastQuestion qz s = (int (q_currentQuestionIndex s) = int (length (questions qz)) - 1)"

definition allAnswered :: "quiz \<Rightarrow> quiz_state \<Rightarrow> bool" where
  "allAnswered qz s = (length (q_answers s) = length (questions qz))"

definition correctCount :: "quiz_state \<Rightarrow> nat" where
  "correctCount s =
     length (filter (\<lambda>a. case qa_feedback a of None \<Rightarrow> False | Some f \<Rightarrow> fb_is_correct f)
               (map snd (q_answers s)))"

text \<open>\<^verbatim>\<open>(correctCount / quiz.questions.length) * 100\<close>, in doubles.\<close>

definition quiz_score :: "quiz \<Rightarrow> quiz_state \<Rightarrow> rat" where
  "quiz_score qz s =
     (if length (questions qz) > 0
      then js_mul (js_div (of_nat (correctCount s)) (of_nat (length (questions qz)))) 100
      else 0)"

text \<open>The number in the Score box: \<^verbatim>\<open>{Math.round(score)}%\<close>.\<close>

definition quiz_displayScore :: "quiz \<Rightarrow> quiz_state \<Rightarrow> int" where
  "quiz_displayScore qz s = Math_round (quiz_score qz s)"

text \<open>
  The controls of the Quiz page. Before a quiz exists only the setup form is rendered;
  with a quiz, the question view with its buttons. The question view reads the current
  question, so it renders only while the cursor is inside the list of questions. Each
  event runs its handler when its control is rendered and not disabled, and does nothing
  otherwise.
\<close>

datatype quiz_event =
  ClickStartQuiz
| ChangeNumQuestions "int option"
| SelectAnswer string
| ClickSubmitAnswer
| ClickPrevious
| ClickNext
| ClickQuestionDot nat
| ClickFinishQuiz
| ClickStartNewQuiz

definition quiz_enabled :: "quiz_event \<Rightarrow> quiz_state \<Rightarrow> bool" where
  "quiz_enabled e s =
     (case q_quiz s of
        None \<Rightarrow>
          (case e of
             ClickStartQuiz \<Rightarrow> \<not> q_starting s
           | ChangeNumQuestions _ \<Rightarrow> True
           | _ \<Rightarrow> False)
      | Some qz \<Rightarrow>
          q_currentQuestionIndex s < length (questions qz) \<and>
          (case e of
             ClickStartQuiz \<Rightarrow> False
           | ChangeNumQuestions _ \<Rightarrow> False
           | SelectAnswer _ \<Rightarrow> \<not> hasAnswered qz s
           | ClickSubmitAnswer \<Rightarrow>
               \<not> hasAnswered qz s \<and> \<not> (trim (q_selectedAnswer s) = [] \<or> q_loading s)
           | ClickPrevious \<Rightarrow> q_currentQuestionIndex s \<noteq> 0
           | ClickNext \<Rightarrow> \<not> isLastQuestion qz s \<and> hasAnswered qz s
           | ClickQuestionDot idx \<Rightarrow> idx < length (questions qz)
           | ClickFinishQuiz \<Rightarrow> isLastQuestion qz s
           | ClickStartNewQuiz \<Rightarrow> allAnswered qz s))"

definition quiz_handler ::
  "(start_quiz_request \<Rightarrow> api_error + quiz) \<Rightarrow>
   (submit_answer_request \<Rightarrow> api_error + submit_answer_response) \<Rightarrow>
   quiz_event \<Rightarrow> quiz_state \<Rightarrow> quiz_state" where
  "quiz_handler startApi answerApi e s =
     (case e of
        ClickStartQuiz \<Rightarrow> startQuiz startApi s
      | ChangeNumQuestions parsed \<Rightarrow> setNumQuestions_onChange parsed s
      | SelectAnswer a \<Rightarrow> s\<lparr>q_selectedAnswer := a\<rparr>
      | ClickSubmitAnswer \<Rightarrow> submitAnswer_quiz answerApi s
      | ClickPrevious \<Rightarrow> previousQuestion s
      | ClickNext \<Rightarrow> nextQuestion s
      | ClickQuestionDot idx \<Rightarrow> questionDot_onClick idx s
      | ClickFinishQuiz \<Rightarrow> resetQuiz s
      | ClickStartNewQuiz \<Rightarrow> resetQuiz s)"

definition quiz_ui ::
  "(start_quiz_request \<Rightarrow> api_error + quiz) \<Rightarrow>
   (submit_answer_request \<Rightarrow> api_error + submit_answer_response) \<Rightarrow>
   quiz_event \<Rightarrow> quiz_state \<Rightarrow> quiz_state" where
  "quiz_ui startApi answerApi e s =
     (if quiz_enabled e s then quiz_handler startApi answerApi e s else s)"

text \<open>The Quiz events that discard the running session.\<close>

definition quiz_restarts :: "quiz_event \<Rightarrow> bool" where
  "quiz_restarts e = (e = ClickStartQuiz \<or> e = ClickFinishQuiz \<or> e = ClickStartNewQuiz)"



subsection \<open>Teaching (Socratic questions)\<close>

record teach_request =
  tr_topic :: string
  tr_user_id :: string
  tr_difficulty_level :: string
  previous_responses :: "string list"

record teach_response =
  te_question :: string
  te_explanation :: "string option"
  te_hint :: "string option"
  te_is_complete :: bool
  te_next_step :: "string option"
  concepts_covered :: "string list option"

record teaching_session =
  ts_topic :: string
  ts_difficulty :: string
  currentQuestion :: string
  ts_explanation :: "string option"
  ts_hint :: "string option"
  isComplete :: bool
  nextStep :: "string option"

record qa_pair =
  qp_question :: string
  qp_answer :: string

record teaching_state =
  t_topic :: string
  t_difficulty :: string
  t_session :: "teaching_session option"
  t_qaPairs :: "qa_pair list"
  t_currentAnswer :: string
  t_loading :: bool
  t_concepts :: "string list"
  t_userId :: string
  t_alerts :: "detail list"
  t_sent :: "teach_request list"

definition Teaching_mount :: "string \<Rightarrow> teaching_state" where
  "Teaching_mount uid =
     \<lparr>t_topic = [], t_difficulty = ''undergrad'', t_session = None, t_qaPairs = [],
      t_currentAnswer = [], t_loading = False, t_concepts = [], t_userId = uid,
      t_alerts = [], t_sent = []\<rparr>"

definition startSession_teaching :: "(teach_request \<Rightarrow> api_error + teach_response) \<Rightarrow> teaching_state \<Rightarrow> teaching_state" where
  "startSession_teaching api s =
     (if trim (t_topic s) = [] then s
      else
        (let req = \<lparr>tr_topic = trim (t_topic s), tr_user_id = t_userId s,
                    tr_difficulty_level = t_difficulty s, previous_responses = []\<rparr>;
             s1 = s\<lparr>t_loading := True, t_sent := t_sent s @ [req]\<rparr>
         in case api req of
              Inr response \<Rightarrow>
                s1\<lparr>t_session := Some \<lparr>ts_topic = trim (t_topic s),
                                        ts_difficulty = t_difficulty s,
                                        currentQuestion = te_question response,
                                        ts_explanation = te_explanation response,
                                        ts_hint = te_hint response,
                                        isComplete = te_is_complete response,
                                        nextStep = te_next_step response\<rparr>,
                   t_concepts := (case concepts_covered response of None \<Rightarrow> [] | Some cs \<Rightarrow> cs),
                   t_qaPairs := [],
                   t_loading := False\<rparr>
            | Inl error \<Rightarrow>
                s1\<lparr>t_alerts := t_alerts s @ [detail_or error ''Failed to start session''],
                   t_loading := False\<rparr>))"

text \<open>The payload of a continue request: \<^verbatim>\<open>[...qaPairs.map(p => p.answer), userResponse]\<close>.\<close>

definition updatedResponses :: "teaching_state \<Rightarrow> string list" where
  "updatedResponses s = map qp_answer (t_qaPairs s) @ [trim (t_currentAnswer s)]"

definition submitAnswer_teaching :: "(teach_request \<Rightarrow> api_error + teach_response) \<Rightarrow> teaching_state \<Rightarrow> teaching_state" where
  "submitAnswer_teaching api s =
     (if trim (t_currentAnswer s) = [] \<or> t_session s = None \<or> t_loading s then s
      else case t_session s of
        None \<Rightarrow> s
      | Some session \<Rightarrow>
          (let userResponse = trim (t_currentAnswer s);
               currentQ = currentQuestion session;
               req = \<lparr>tr_topic = ts_topic session, tr_user_id = t_userId s,
                      tr_difficulty_level = ts_difficulty session,
                      previous_responses = updatedResponses s\<rparr>;
               s1 = s\<lparr>t_currentAnswer := [], t_loading := True, t_sent := t_sent s @ [req]\<rparr>
           in case api req of
                Inr response \<Rightarrow>
                  s1\<lparr>t_qaPairs := t_qaPairs s @ [\<lparr>qp_question = currentQ, qp_answer = userResponse\<rparr>],
                     t_session := Some (session\<lparr>currentQuestion := te_question response,
                                                ts_explanation := te_explanation response,
                                                ts_hint := te_hint response,
                                                isComplete := te_is_complete response,
                                                nextStep := te_next_step response\<rparr>),
                     t_concepts := (case concepts_covered response of None \<Rightarrow> [] | Some cs \<Rightarrow> cs),
                     t_loading := False\<rparr>
              | Inl error \<Rightarrow>
                  s1\<lparr>t_alerts := t_alerts s @ [detail_or error ''Failed to process answer''],
                     t_loading := False\<rparr>))"

definition resetSession_teaching :: "teaching_state \<Rightarrow> teaching_state" where
  "resetSession_teaching s = s\<lparr>t_session := None, t_qaPairs := [], t_currentAnswer := [], t_concepts := []\<rparr>"

text \<open>
  A learner's run after the session has started: each answer is typed into the field
  and submitted.
\<close>

fun answer_all :: "(teach_request \<Rightarrow> api_error + teach_response) \<Rightarrow> string list \<Rightarrow> teaching_state \<Rightarrow> teaching_state" where
  "answer_all api [] s = s"
| "answer_all api (a # as) s = answer_all api as (submitAnswer_teaching api (s\<lparr>t_currentAnswer := a\<rparr>))"

subsection \<open>ClinicalCase\<close>

record clinical_start_request =
  cs_topic :: "string option"
  cs_difficulty_level :: string

text \<open>
  The start response; \<open>available_hints\<close> is optional because the component reads it as
  \<^verbatim>\<open>res.available_hints || 3\<close>.
\<close>

record clinical_session =
  session_id :: string
  scenario_context :: string
  initial_presentation :: string
  patient_name :: string
  available_hints :: "int option"
  stage :: string

record interact_request =
  ir_session_id :: string
  user_message :: string
  request_hint :: bool

record completion_data =
  clinical_reasoning_score :: rat
  cd_performance_summary :: string

record interact_response =
  ai_response :: string
  ia_stage :: string
  ia_available_hints :: int
  guidance :: "string option"
  is_correct_path :: "bool option"
  hint_given :: "string option"
  session_complete :: bool
  completion :: "completion_data option"

datatype clinical_call = StartClinicalSession clinical_start_request | InteractClinicalSession interact_request

text \<open>
  The conversation: the entries of \<^verbatim>\<open>messages\<close> by their \<^verbatim>\<open>type\<close>. An \<open>AiMessage\<close> is
  of type \<^verbatim>\<open>hint\<close> when its flag is set and of type \<^verbatim>\<open>response\<close> otherwise, and carries
  the whole response (\<^verbatim>\<open>...res\<close>).
\<close>

datatype message =
  SystemMessage string
| PresentationMessage string string
| StudentMessage string
| AiMessage bool interact_response
| CompletionMessage completion_data

record clinical_state =
  c_topic :: string
  c_difficulty :: string
  c_session :: "clinical_session option"
  c_messages :: "message list"
  c_input :: string
  c_loading :: bool
  c_starting :: bool
  c_error :: "detail option"
  c_availableHints :: int
  c_showingHint :: bool
  c_sent :: "clinical_call list"

definition ClinicalCase_mount :: clinical_state where
  "ClinicalCase_mount =
     \<lparr>c_topic = [], c_difficulty = ''med'', c_session = None, c_messages = [], c_input = [],
      c_loading = False, c_starting = False, c_error = None, c_availableHints = 3,
      c_showingHint = False, c_sent = []\<rparr>"

definition startSession_clinical :: "(clinical_start_request \<Rightarrow> api_error + clinical_session) \<Rightarrow> clinical_state \<Rightarrow> clinical_state" where
  "startSession_clinical api s =
     (let req = \<lparr>cs_topic = (if trim (c_topic s) = [] then None else Some (trim (c_topic s))),
                 cs_difficulty_level = c_difficulty s\<rparr>;
          s1 = s\<lparr>c_starting := True, c_error := None,
                 c_sent := c_sent s @ [StartClinicalSession req]\<rparr>
      in case api req of
           Inr res \<Rightarrow>
             s1\<lparr>c_session := Some res,
                c_availableHints := (case available_hints res of None \<Rightarrow> 3
                                      | Some n \<Rightarrow> if n = 0 then 3 else n),
                c_messages := [SystemMessage (scenario_context res),
                               PresentationMessage (initial_presentation res) (patient_name res)],
                c_starting := False\<rparr>
         | Inl err \<Rightarrow>
             s1\<lparr>c_error := Some (detail_or err ''Failed to start clinical session''),
                c_starting := False\<rparr>)"

text \<open>
  \<^verbatim>\<open>sendMessage(requestHint)\<close>. A typed message is appended before the request, a hint
  request appends nothing before it. Without a session, \<^verbatim>\<open>session.session_id\<close> throws
  inside the \<^verbatim>\<open>try\<close> and the \<^verbatim>\<open>catch\<close> reports the fallback text.
\<close>

definition sendMessage :: "(interact_request \<Rightarrow> api_error + interact_response) \<Rightarrow> bool \<Rightarrow> clinical_state \<Rightarrow> clinical_state" where
  "sendMessage api requestHint s =
     (if (trim (c_input s) = [] \<and> \<not> requestHint) \<or> c_loading s then s
      else
        (let userMessage = trim (c_input s);
             s0 = (if \<not> requestHint
                   then s\<lparr>c_messages := c_messages s @ [StudentMessage userMessage], c_input := []\<rparr>
                   else s);
             s1 = s0\<lparr>c_loading := True, c_showingHint := requestHint\<rparr>
         in case c_session s of
              None \<Rightarrow>
                s1\<lparr>c_error := Some (DetailStr ''Failed to process message''),
                   c_loading := False, c_showingHint := False\<rparr>
            | Some session \<Rightarrow>
                (let req = \<lparr>ir_session_id = session_id session,
                            user_message = (if userMessage = [] then ''(requested hint)'' else userMessage),
                            request_hint = requestHint\<rparr>;
                     s2 = s1\<lparr>c_sent := c_sent s @ [InteractClinicalSession req]\<rparr>
                 in case api req of
                      Inr res \<Rightarrow>
                        s2\<lparr>c_messages := c_messages s1 @ [AiMessage requestHint res] @
                              (case completion res of
                                 None \<Rightarrow> []
                               | Some cd \<Rightarrow> if session_complete res then [CompletionMessage cd] else []),
                           c_availableHints := ia_available_hints res,
                           c_session := Some (session\<lparr>stage := ia_stage res\<rparr>),
                           c_loading := False, c_showingHint := False\<rparr>
                    | Inl err \<Rightarrow>
                        s2\<lparr>c_error := Some (detail_or err ''Failed to process message''),
                           c_loading := False, c_showingHint := False\<rparr>)))"

definition resetSession_clinical :: "clinical_state \<Rightarrow> clinical_state" where
  "resetSession_clinical s =
     s\<lparr>c_session := None, c_messages := [], c_input := [], c_availableHints := 3, c_error := None\<rparr>"

text \<open>The hint button: \<^verbatim>\<open>disabled={loading || availableHints === 0}\<close>, rendered with a session.\<close>

definition hint_enabled :: "clinical_state \<Rightarrow> bool" where
  "hint_enabled s = (c_session s \<noteq> None \<and> \<not> (c_loading s \<or> c_availableHints s = 0))"

definition clickHint :: "(interact_request \<Rightarrow> api_error + interact_response) \<Rightarrow> clinical_state \<Rightarrow> clinical_state" where
  "clickHint api s = (if hint_enabled s then sendMessage api True s else s)"

subsection \<open>Example sessions\<close>

text \<open>Concrete decks, quizzes and sessions at which the theorems below are evaluated. The
  page states are reached from a mount by events of the page.\<close>

definition example_cards :: "card list" where
  "example_cards =
     [\<lparr>card_front = ''Q1'', card_back = ''A1''\<rparr>,
      \<lparr>card_front = ''Q2'', card_back = ''A2''\<rparr>,
      \<lparr>card_front = ''Q3'', card_back = ''A3''\<rparr>]"

text \<open>A card service that returns the example deck; evaluations, one of them with flags that
  contradict its score; a request that timed out; a browser whose storage accepts every
  write, and one whose storage refuses every write.\<close>

definition deck_service :: "generate_request \<Rightarrow> api_error + generate_response" where
  "deck_service req = Inr \<lparr>flash_cards = Some example_cards, gn_topic = Some ''cns''\<rparr>"

definition half_marked_correct :: evaluation where
  "half_marked_correct =
     \<lparr>score = 1 / 2, ev_feedback = ''half'', is_correct = True, is_partial = False\<rparr>"

definition full_marks :: evaluation where
  "full_marks = \<lparr>score = 1, ev_feedback = ''good'', is_correct = True, is_partial = False\<rparr>"

definition timeout_error :: api_error where
  "timeout_error = \<lparr>err_detail = None, err_message = ''Request timeout. Please try again.''\<rparr>"

definition no_analysis :: "analyze_request \<Rightarrow> api_error + analysis" where
  "no_analysis req = Inl timeout_error"

definition never_throws :: "flashcards_data option \<Rightarrow> bool" where
  "never_throws v = False"

definition always_throws :: "flashcards_data option \<Rightarrow> bool" where
  "always_throws v = True"

text \<open>A run of page events, each followed by the effect that saves the deck.\<close>

fun flashcards_run ::
  "(generate_request \<Rightarrow> api_error + generate_response) \<Rightarrow>
   (evaluate_request \<Rightarrow> api_error + evaluation) \<Rightarrow>
   (analyze_request \<Rightarrow> api_error + analysis) \<Rightarrow>
   flashcards_event list \<Rightarrow> flashcards_state \<Rightarrow> flashcards_state" where
  "flashcards_run genApi evalApi anaApi [] s = s"
| "flashcards_run genApi evalApi anaApi (e # es) s =
     flashcards_run genApi evalApi anaApi es (flashcards_ui genApi evalApi anaApi e s)"

text \<open>The page opened without a saved deck; a deck generated and an answer typed for the
  first card; the first card answered; the cursor moved to the second card.\<close>

definition fc_opened :: flashcards_state where
  "fc_opened = FlashCards_mount None None never_throws"

definition fc_typed :: flashcards_state where
  "fc_typed =
     flashcards_run deck_service (\<lambda>_. Inr half_marked_correct) no_analysis
       [ClickGenerate, ChangeUserAnswer ''x''] fc_opened"

definition fc_first_answered :: flashcards_state where
  "fc_first_answered =
     flashcards_run deck_service (\<lambda>_. Inr half_marked_correct) no_analysis
       [ClickGenerate, ChangeUserAnswer ''x'', ClickSubmit] fc_opened"

definition fc_on_second :: flashcards_state where
  "fc_on_second =
     flashcards_run deck_service (\<lambda>_. Inr half_marked_correct) no_analysis
       [ClickNextCard] fc_first_answered"

text \<open>The page reloaded at that point, mounting from the saved record; the second card
  answered after the reload; then Previous, Next, and an answer submitted once more.\<close>

definition fc_reloaded :: flashcards_state where
  "fc_reloaded = FlashCards_reload (f_localStorage fc_on_second) never_throws"

definition fc_second_answered :: flashcards_state where
  "fc_second_answered =
     flashcards_run deck_service (\<lambda>_. Inr full_marks) no_analysis
       [ChangeUserAnswer ''y'', ClickSubmit] fc_reloaded"

definition fc_second_answered_again :: flashcards_state where
  "fc_second_answered_again =
     flashcards_run deck_service (\<lambda>_. Inr full_marks) no_analysis
       [ClickPrevCard, ClickNextCard, ChangeUserAnswer ''z'', ClickSubmit] fc_second_answered"

text \<open>Without a reload: all three cards answered in order, the cursor on the last card.\<close>

definition fc_on_last :: flashcards_state where
  "fc_on_last =
     flashcards_run deck_service (\<lambda>_. Inr full_marks) no_analysis
       [ChangeUserAnswer ''y'', ClickSubmit, ClickNextCard, ChangeUserAnswer ''z'', ClickSubmit]
       fc_on_second"

text \<open>The same first steps in a browser whose storage refuses every write.\<close>

definition fc_storage_full :: flashcards_state where
  "fc_storage_full =
     flashcards_run deck_service (\<lambda>_. Inr half_marked_correct) no_analysis
       [ClickGenerate, ChangeUserAnswer ''x'', ClickSubmit, ClickNextCard]
       (FlashCards_mount None None always_throws)"

text \<open>A quiz of three questions and the feedback of the answer service.\<close>

definition example_quiz :: quiz where
  "example_quiz =
     \<lparr>quiz_id = ''quiz1'', quiz_topic = Some ''cns'', difficulty_level = ''undergrad'',
      questions =
        [\<lparr>question_id = ''q1'', question_text = ''One?'', question_type = ''mcq'',
          options = Some [''A'', ''B''], correct_answer = ''A''\<rparr>,
         \<lparr>question_id = ''q2'', question_text = ''Two?'', question_type = ''mcq'',
          options = Some [''A'', ''B''], correct_answer = ''B''\<rparr>,
         \<lparr>question_id = ''q3'', question_text = ''Three?'', question_type = ''short'',
          options = None, correct_answer = ''C''\<rparr>]\<rparr>"

definition right_feedback :: feedback where
  "right_feedback =
     \<lparr>fb_is_correct = True, fb_feedback = ''Yes'', fb_explanation = None,
      fb_correct_answer = ''A'', fb_related_anatomy = None\<rparr>"

fun quiz_run ::
  "(start_quiz_request \<Rightarrow> api_error + quiz) \<Rightarrow>
   (submit_answer_request \<Rightarrow> api_error + submit_answer_response) \<Rightarrow>
   quiz_event list \<Rightarrow> quiz_state \<Rightarrow> quiz_state" where
  "quiz_run startApi answerApi [] s = s"
| "quiz_run startApi answerApi (e # es) s =
     quiz_run startApi answerApi es (quiz_ui startApi answerApi e s)"

text \<open>The quiz started; an answer selected for the first question; the first question
  answered; all three answered, the cursor on the last one.\<close>

definition quiz_started :: quiz_state where
  "quiz_started =
     quiz_run (\<lambda>_. Inr example_quiz) (\<lambda>_. Inr \<lparr>sr_feedback = Some right_feedback\<rparr>)
       [ClickStartQuiz] (Quiz_mount ''u1'')"

definition quiz_q1_selected :: quiz_state where
  "quiz_q1_selected =
     quiz_run (\<lambda>_. Inr example_quiz) (\<lambda>_. Inr \<lparr>sr_feedback = Some right_feedback\<rparr>)
       [SelectAnswer ''A''] quiz_started"

definition quiz_q1_answered :: quiz_state where
  "quiz_q1_answered =
     quiz_run (\<lambda>_. Inr example_quiz) (\<lambda>_. Inr \<lparr>sr_feedback = Some right_feedback\<rparr>)
       [SelectAnswer ''A'', ClickSubmitAnswer] quiz_started"

definition quiz_on_last :: quiz_state where
  "quiz_on_last =
     quiz_run (\<lambda>_. Inr example_quiz) (\<lambda>_. Inr \<lparr>sr_feedback = Some right_feedback\<rparr>)
       [ClickNext, SelectAnswer ''A'', ClickSubmitAnswer,
        ClickNext, SelectAnswer ''C'', ClickSubmitAnswer] quiz_q1_answered"



text \<open>A teaching page with a topic typed, and a tutor that always asks on.\<close>

definition teaching_ready :: teaching_state where
  "teaching_ready = (Teaching_mount ''u1'')\<lparr>t_topic := ''thalamus''\<rparr>"

definition tutor :: "teach_request \<Rightarrow> teach_response" where
  "tutor req =
     \<lparr>te_question = ''Why?'', te_explanation = None, te_hint = None, te_is_complete = False,
      te_next_step = None, concepts_covered = None\<rparr>"

text \<open>A clinical case as the start endpoint returns it.\<close>

definition example_case :: clinical_session where
  "example_case =
     \<lparr>session_id = ''case1'', scenario_context = ''ER, night shift'',
      initial_presentation = ''Sudden left-sided weakness'', patient_name = ''Mr. K'',
      available_hints = Some 3, stage = ''initial''\<rparr>"

text \<open>A clinical session in progress with one hint left.\<close>

definition clinical_one_left :: clinical_state where
  "clinical_one_left =
     (startSession_clinical (\<lambda>_. Inr example_case) ClinicalCase_mount)\<lparr>c_availableHints := 1\<rparr>"

text \<open>A reply of the interaction endpoint that reports three hints.\<close>

definition reply_three_hints :: interact_response where
  "reply_three_hints =
     \<lparr>ai_response = ''Consider the vascular territory.'', ia_stage = ''gathering_info'',
      ia_available_hints = 3, guidance = None, is_correct_path = None,
      hint_given = Some ''Think of the MCA.'', session_complete = False, completion = None\<rparr>"

section \<open>Properties\<close>

subsection \<open>Double arithmetic\<close>





























lemma fl_values: "fl 1 = 1" "fl (1 / 2) = 1 / 2" "fl 2 = 2" "fl (3 / 2) = 3 / 2"
  by code_simp+

text \<open>
  Three computations as the browser performs them: \<^verbatim>\<open>0.1 + 0.2\<close> is not \<^verbatim>\<open>0.3\<close>;
  \<^verbatim>\<open>(0.5 + 0.65).toFixed(1)\<close> is \<^verbatim>\<open>1.1\<close>; \<^verbatim>\<open>Math.round((23 / 40) * 100)\<close> is 57.
\<close>

lemma double_examples:
  "js_add (fl (1 / 10)) (fl (2 / 10)) \<noteq> fl (3 / 10)"
  "toFixed 1 (js_add (fl (1 / 2)) (fl (13 / 20))) = 11 / 10"
  "Math_round (js_mul (js_div 23 40) 100) = 57"
  by code_simp+

subsection \<open>The example sessions, evaluated\<close>

lemmas fc_defs = flashcards_ui_def flashcards_enabled_def flashcards_handler_def viewer_shown_def
  FlashCards_effect_def setFlashCardsData_def generate_def submitAnswer_fc_def nextCard_def
  prevCard_def goToCard_def analyzeSession_def FlashCards_mount_def FlashCards_reload_def
  flashCardsData_init_def Let_def trim_def is_space_def js_add_def fl_values

lemmas quiz_defs = quiz_ui_def quiz_enabled_def quiz_handler_def startQuiz_def
  startQuiz_request_def submitAnswer_quiz_def nextQuestion_def previousQuestion_def
  questionDot_onClick_def showQuestion_def resetQuiz_def hasAnswered_def isLastQuestion_def
  allAnswered_def answers_get_def Object_prototype_members_def Quiz_mount_def
  setNumQuestions_onChange_def Let_def trim_def is_space_def

lemma fc_first_answered_eq:
  "fc_first_answered =
     \<lparr>f_topic = [], f_numCards = 10, f_difficulty = ''undergrad'', f_cards = example_cards,
      f_currentIndex = 0, f_loading = False, f_error = None, f_userAnswer = ''x'',
      f_showAnswer = True,
      f_evaluation = Some half_marked_correct,
      f_evaluating = False,
      f_cardResults = [\<lparr>cr_question = ''Q1'', user_answer = ''x'', cr_correct_answer = ''A1'',
                         cr_score = 1 / 2, cr_feedback = ''half''\<rparr>],
      f_totalScore = 1 / 2, f_sessionComplete = False, f_analysis = None, f_analyzing = False,
      f_flashCardsData = Some \<lparr>fd_cards = example_cards, fd_topic = [], fd_currentIndex = 0\<rparr>,
      f_localStorage = Some (Some \<lparr>fd_cards = example_cards, fd_topic = [], fd_currentIndex = 0\<rparr>),
      f_setItemThrows = never_throws,
      f_sent = [GenerateFlashCards \<lparr>gr_topic = None, num_cards = 10, gr_difficulty_level = ''undergrad''\<rparr>,
                EvaluateFlashCardAnswer \<lparr>ev_user_answer = ''x'', ev_correct_answer = ''A1'', ev_question = ''Q1''\<rparr>]\<rparr>"
  by (simp add: fc_first_answered_def fc_opened_def fc_defs deck_service_def example_cards_def
      half_marked_correct_def never_throws_def)

lemma fc_typed_eq:
  "fc_typed = fc_first_answered\<lparr>f_showAnswer := False, f_evaluation := None, f_cardResults := [],
      f_totalScore := 0,
      f_sent := [GenerateFlashCards \<lparr>gr_topic = None, num_cards = 10, gr_difficulty_level = ''undergrad''\<rparr>]\<rparr>"
  by (simp add: fc_typed_def fc_first_answered_eq fc_opened_def fc_defs deck_service_def
      example_cards_def never_throws_def)

lemma fc_on_second_eq:
  "fc_on_second =
     fc_first_answered\<lparr>f_currentIndex := 1, f_userAnswer := [], f_showAnswer := False,
       f_evaluation := None,
       f_flashCardsData := Some \<lparr>fd_cards = example_cards, fd_topic = [], fd_currentIndex = 1\<rparr>,
       f_localStorage := Some (Some \<lparr>fd_cards = example_cards, fd_topic = [], fd_currentIndex = 1\<rparr>)\<rparr>"
  by (simp add: fc_on_second_def fc_first_answered_eq fc_defs example_cards_def never_throws_def)

lemma fc_reloaded_eq:
  "fc_reloaded =
     FlashCards_mount (Some \<lparr>fd_cards = example_cards, fd_topic = [], fd_currentIndex = 1\<rparr>)
       (Some (Some \<lparr>fd_cards = example_cards, fd_topic = [], fd_currentIndex = 1\<rparr>)) never_throws"
  by (simp add: fc_reloaded_def fc_on_second_eq fc_first_answered_eq FlashCards_reload_def
      flashCardsData_init_def)

lemma fc_on_last_facts:
  "f_currentIndex fc_on_last = 2" "f_cards fc_on_last = example_cards" "f_showAnswer fc_on_last"
  "length (f_cardResults fc_on_last) = 3" "\<not> f_sessionComplete fc_on_last"
  "f_currentIndex (nextCard no_analysis fc_on_last) = 2"
  "f_sessionComplete (nextCard no_analysis fc_on_last)"
  "f_currentIndex (flashcards_ui deck_service (\<lambda>_. Inr full_marks) no_analysis ClickNextCard fc_on_last) = 2"
  "f_sessionComplete (flashcards_ui deck_service (\<lambda>_. Inr full_marks) no_analysis ClickNextCard fc_on_last)"
  by (simp_all add: fc_on_last_def fc_on_second_eq fc_first_answered_eq fc_defs example_cards_def
      never_throws_def full_marks_def no_analysis_def)

lemma fc_storage_full_facts:
  "f_cards fc_storage_full = example_cards" "f_currentIndex fc_storage_full = 1"
  "\<not> f_sessionComplete fc_storage_full" "f_localStorage fc_storage_full = None"
  "f_setItemThrows fc_storage_full = always_throws"
  "f_topic fc_storage_full = []"
  by (simp_all add: fc_storage_full_def fc_defs deck_service_def example_cards_def
      always_throws_def half_marked_correct_def)

lemma quiz_started_eq:
  "quiz_started =
     (Quiz_mount ''u1'')\<lparr>q_quiz := Some example_quiz,
        q_sent := [StartQuiz \<lparr>sq_user_id = ''u1'', sq_topic = None,
                     sq_difficulty_level = ''undergrad'', sq_system_filter = None,
                     num_questions = 5\<rparr>]\<rparr>"
  by (simp add: quiz_started_def quiz_defs)

lemma quiz_q1_selected_eq: "quiz_q1_selected = quiz_started\<lparr>q_selectedAnswer := ''A''\<rparr>"
  by (simp add: quiz_q1_selected_def quiz_started_eq quiz_defs example_quiz_def)

lemma quiz_q1_answered_eq:
  "quiz_q1_answered =
     quiz_started\<lparr>q_selectedAnswer := ''A'',
        q_answers := [(''q1'', \<lparr>qa_answer = ''A'', qa_feedback = Some right_feedback\<rparr>)],
        q_feedback := Some right_feedback,
        q_sent := q_sent quiz_started @
          [SubmitAnswer \<lparr>sa_quiz_id = ''quiz1'', sa_question_id = ''q1'', sa_answer = ''A'',
                          sa_user_id = ''u1''\<rparr>]\<rparr>"
  by (simp add: quiz_q1_answered_def quiz_started_eq quiz_defs example_quiz_def)

lemma quiz_on_last_facts:
  "q_quiz quiz_on_last = Some example_quiz" "q_currentQuestionIndex quiz_on_last = 2"
  "map fst (q_answers quiz_on_last) = [''q1'', ''q2'', ''q3'']"
  "hasAnswered example_quiz quiz_on_last"
  "nextQuestion quiz_on_last = quiz_on_last"
  by (simp_all add: quiz_on_last_def quiz_q1_answered_eq quiz_started_eq quiz_defs example_quiz_def)

subsection \<open>Invariants of the pages\<close>

text \<open>
  In a deck that was not restored from the saved record the cursor is on a card with a
  stored result or on the first card without one, and result \<open>i\<close> belongs to card \<open>i\<close>.
\<close>

lemma fresh_deck_run:
  "fresh_deck s \<Longrightarrow> fresh_deck (flashcards_run genApi evalApi anaApi es s)"
  by (induction es arbitrary: s) (auto intro: fresh_deck.event)

lemma cursor_gated_ui:
  assumes "cursor_gated s"
  shows "cursor_gated (flashcards_ui genApi evalApi anaApi e s)"
proof (cases "flashcards_enabled e s")
  case False
  then show ?thesis using assms by (simp add: flashcards_ui_def)
next
  case True
  have eff: "\<And>u. cursor_gated (FlashCards_effect u) = cursor_gated u"
    by (simp add: cursor_gated_def FlashCards_effect_def setFlashCardsData_def)
  have "cursor_gated (flashcards_handler genApi evalApi anaApi e s)"
  proof (cases e)
    case ClickGenerate
    then show ?thesis using assms
      by (auto simp: cursor_gated_def flashcards_handler_def generate_def setFlashCardsData_def
          Let_def split: sum.splits)
  next
    case (ChangeNumCards x)
    then show ?thesis using assms
      by (simp add: cursor_gated_def flashcards_handler_def setNumCards_onChange_def)
  next
    case (ChangeUserAnswer x)
    then show ?thesis using assms by (simp add: cursor_gated_def flashcards_handler_def)
  next
    case ClickSubmit
    then show ?thesis using assms True
      by (auto simp: cursor_gated_def flashcards_handler_def flashcards_enabled_def
          submitAnswer_fc_def Let_def split: sum.splits)
  next
    case ClickNextCard
    then show ?thesis using assms True
      by (auto simp: cursor_gated_def flashcards_handler_def flashcards_enabled_def
          nextCard_def goToCard_def analyzeSession_def Let_def split: sum.splits)
  next
    case ClickPrevCard
    then show ?thesis using assms True
      by (auto simp: cursor_gated_def flashcards_handler_def flashcards_enabled_def
          prevCard_def goToCard_def Let_def)
  next
    case ClickStartOver
    then show ?thesis
      by (simp add: cursor_gated_def flashcards_handler_def startOver_def startNewSession_def
          setFlashCardsData_def)
  next
    case (ClickStartNewSession x)
    then show ?thesis
      by (simp add: cursor_gated_def flashcards_handler_def startNewSession_def
          setFlashCardsData_def)
  qed
  then show ?thesis using True by (simp add: flashcards_ui_def eff)
qed

lemma results_in_card_order_ui:
  assumes "results_in_card_order s" and "cursor_gated s"
  shows "results_in_card_order (flashcards_ui genApi evalApi anaApi e s)"
proof (cases "flashcards_enabled e s")
  case False
  then show ?thesis using assms by (simp add: flashcards_ui_def)
next
  case True
  have eff: "\<And>u. results_in_card_order (FlashCards_effect u) = results_in_card_order u"
    by (simp add: results_in_card_order_def FlashCards_effect_def setFlashCardsData_def)
  have "results_in_card_order (flashcards_handler genApi evalApi anaApi e s)"
  proof (cases e)
    case ClickGenerate
    then show ?thesis using assms(1) True
      by (auto simp: results_in_card_order_def flashcards_handler_def flashcards_enabled_def
          generate_def setFlashCardsData_def Let_def split: sum.splits)
  next
    case (ChangeNumCards x)
    then show ?thesis using assms(1)
      by (simp add: results_in_card_order_def flashcards_handler_def setNumCards_onChange_def)
  next
    case (ChangeUserAnswer x)
    then show ?thesis using assms(1) by (simp add: results_in_card_order_def flashcards_handler_def)
  next
    case ClickSubmit
    from True ClickSubmit assms(2)
    have idx: "f_currentIndex s = length (f_cardResults s)"
      by (auto simp: flashcards_enabled_def cursor_gated_def)
    show ?thesis
    proof (cases "f_currentIndex s < length (f_cards s)")
      case False
      then show ?thesis using assms(1) ClickSubmit
        by (auto simp: results_in_card_order_def flashcards_handler_def submitAnswer_fc_def)
    next
      case inside: True
      then have tk: "take (Suc (length (f_cardResults s))) (f_cards s) =
          take (length (f_cardResults s)) (f_cards s) @ [f_cards s ! length (f_cardResults s)]"
        using idx by (simp add: take_Suc_conv_app_nth)
      show ?thesis using assms(1) ClickSubmit inside idx tk
        by (auto simp: results_in_card_order_def flashcards_handler_def submitAnswer_fc_def
            Let_def list_all2_appendI split: sum.splits)
    qed
  next
    case ClickNextCard
    then show ?thesis using assms(1)
      by (auto simp: results_in_card_order_def flashcards_handler_def
          nextCard_def goToCard_def analyzeSession_def Let_def split: sum.splits)
  next
    case ClickPrevCard
    then show ?thesis using assms(1)
      by (auto simp: results_in_card_order_def flashcards_handler_def
          prevCard_def goToCard_def Let_def)
  next
    case ClickStartOver
    then show ?thesis
      by (simp add: results_in_card_order_def flashcards_handler_def startOver_def
          startNewSession_def setFlashCardsData_def)
  next
    case (ClickStartNewSession x)
    then show ?thesis
      by (simp add: results_in_card_order_def flashcards_handler_def startNewSession_def
          setFlashCardsData_def)
  qed
  then show ?thesis using True by (simp add: flashcards_ui_def eff)
qed

lemma fresh_deck_inv:
  "fresh_deck s \<Longrightarrow> cursor_gated s \<and> results_in_card_order s"
proof (induction rule: fresh_deck.induct)
  case (opened stored throws)
  then show ?case
    by (simp add: cursor_gated_def results_in_card_order_def FlashCards_mount_def)
next
  case (started_over recommendedTopic s)
  then show ?case
    by (simp add: cursor_gated_def results_in_card_order_def startNewSession_def
        setFlashCardsData_def)
next
  case (event s genApi evalApi anaApi e)
  then show ?case by (simp add: cursor_gated_ui results_in_card_order_ui)
qed

lemma results_in_card_order_nth:
  assumes "results_in_card_order s" and "i < length (f_cardResults s)"
  shows "cr_question (f_cardResults s ! i) = card_front (f_cards s ! i)"
    and "cr_correct_answer (f_cardResults s ! i) = card_back (f_cards s ! i)"
  using assms by (auto simp: results_in_card_order_def list_all2_conv_all_nth)









subsection \<open>Answering once\<close>

text \<open>
  C1 asks that an item with a recorded answer takes no second submission. FlashCards
  renders the submit button only while \<open>showAnswer\<close> is off, and \<open>goToCard\<close> turns
  \<open>showAnswer\<close> on for a card by looking for a stored result at the card's index. A page
  that mounts from the saved record has the saved cursor but no stored results, so the
  results stored from then on are not at the index of their card. In the example the
  deck is generated, the first card answered and the cursor moved to the second card;
  the page is reloaded (cursor 1, no results); the second card is answered with \<open>y\<close>;
  after Previous and Next the second card is shown without its answer and with the
  submit button, and a submission of \<open>z\<close> is accepted: two results are stored for the
  card \<open>Q2\<close>, the total score is 2, no error is shown and two evaluation requests were
  sent.
\<close>

theorem second_submission_after_reload:
  "fresh_deck fc_on_second
   \<and> f_currentIndex fc_reloaded = 1 \<and> f_cardResults fc_reloaded = []
   \<and> map cr_question (f_cardResults fc_second_answered) = [''Q2'']
   \<and> map cr_question (f_cardResults fc_second_answered_again) = [''Q2'', ''Q2'']
   \<and> map user_answer (f_cardResults fc_second_answered_again) = [''y'', ''z'']
   \<and> f_totalScore fc_second_answered_again = 2
   \<and> f_error fc_second_answered_again = None
   \<and> length (f_sent fc_second_answered_again) = 2"
proof -
  have "fresh_deck fc_on_second"
    unfolding fc_on_second_def fc_first_answered_def fc_opened_def flashcards_run.simps
    by (intro fresh_deck.event fresh_deck.opened)
  then show ?thesis
    by (simp add: fc_second_answered_again_def fc_second_answered_def fc_reloaded_eq fc_defs
        example_cards_def never_throws_def full_marks_def)
qed

subsection \<open>Advancing and navigating\<close>

text \<open>
  C2, as stated, fails: the cursor never equals the number of items. With all three cards
  of the example deck answered and the cursor on the last card (index 2), Next leaves
  the cursor at 2 and completes the session; with all three questions of the example
  quiz answered and the cursor on the last question, \<open>nextQuestion\<close> changes nothing.
\<close>

theorem advance_on_last_item_counterexample:
  "fresh_deck fc_on_last
   \<and> f_currentIndex fc_on_last = 2 \<and> length (f_cards fc_on_last) = 3 \<and> f_showAnswer fc_on_last
   \<and> length (f_cardResults fc_on_last) = 3 \<and> \<not> f_sessionComplete fc_on_last
   \<and> f_currentIndex
        (flashcards_ui deck_service (\<lambda>_. Inr full_marks) no_analysis ClickNextCard fc_on_last) = 2
   \<and> f_sessionComplete
        (flashcards_ui deck_service (\<lambda>_. Inr full_marks) no_analysis ClickNextCard fc_on_last)
   \<and> q_currentQuestionIndex quiz_on_last = 2 \<and> hasAnswered example_quiz quiz_on_last
   \<and> map fst (q_answers quiz_on_last) = [''q1'', ''q2'', ''q3'']
   \<and> nextQuestion quiz_on_last = quiz_on_last"
proof -
  have "fresh_deck fc_on_last"
    unfolding fc_on_last_def fc_on_second_def fc_first_answered_def fc_opened_def
    by (intro fresh_deck_run fresh_deck.opened)
  then show ?thesis
    by (simp add: fc_on_last_facts quiz_on_last_facts example_cards_def)
qed

text \<open>
  C2, amended. While the cursor is before the last item an advance moves it by exactly
  one and sends nothing. On the last item the cursor stays: in FlashCards the advance
  completes the session and sends one analysis request with the total score, the number
  of cards and the stored results; in Quiz \<open>nextQuestion\<close> changes nothing. The Next
  button of Quiz does nothing while the current question counts as unanswered, and when
  it is enabled on a question whose id is not the name of a member of
  \<^verbatim>\<open>Object.prototype\<close>, that question has a recorded answer. The Next button of FlashCards
  does nothing while no answer is shown or once the session is complete, and in a deck
  that was not restored from the saved record it is enabled only on a card that has a
  stored result, the result obtained on that very card.
\<close>

theorem advance_moves_cursor_within_items:
  assumes "q_quiz s = Some qz" and "fresh_deck d"
  shows "(q_currentQuestionIndex s + 1 < length (questions qz) \<longrightarrow>
            q_currentQuestionIndex (nextQuestion s) = q_currentQuestionIndex s + 1
          \<and> q_answers (nextQuestion s) = q_answers s \<and> q_sent (nextQuestion s) = q_sent s)
       \<and> (\<not> q_currentQuestionIndex s + 1 < length (questions qz) \<longrightarrow> nextQuestion s = s)
       \<and> (\<not> hasAnswered qz s \<longrightarrow> quiz_ui startApi answerApi ClickNext s = s)
       \<and> (quiz_enabled ClickNext s
            \<and> question_id (questions qz ! q_currentQuestionIndex s) \<notin> set Object_prototype_members \<longrightarrow>
            map_of (q_answers s) (question_id (questions qz ! q_currentQuestionIndex s)) \<noteq> None)
       \<and> (f_currentIndex t + 1 < length (f_cards t) \<longrightarrow>
            f_currentIndex (nextCard anaApi t) = f_currentIndex t + 1
          \<and> f_sessionComplete (nextCard anaApi t) = f_sessionComplete t
          \<and> f_sent (nextCard anaApi t) = f_sent t)
       \<and> (\<not> f_currentIndex t + 1 < length (f_cards t) \<longrightarrow>
            f_currentIndex (nextCard anaApi t) = f_currentIndex t
          \<and> f_sessionComplete (nextCard anaApi t)
          \<and> f_sent (nextCard anaApi t) = f_sent t @
               [AnalyzeFlashCardSession
                  \<lparr>an_topic = (if f_topic t = [] then ''neuroanatomy'' else f_topic t),
                   total_score = f_totalScore t, max_score = length (f_cards t),
                   card_results = f_cardResults t\<rparr>])
       \<and> (\<not> f_showAnswer t \<or> f_sessionComplete t \<longrightarrow>
            flashcards_ui genApi evalApi anaApi ClickNextCard t = t)
       \<and> (flashcards_enabled ClickNextCard d \<longrightarrow>
            f_currentIndex d < length (f_cardResults d)
          \<and> cr_question (f_cardResults d ! f_currentIndex d) = card_front (f_cards d ! f_currentIndex d)
          \<and> cr_correct_answer (f_cardResults d ! f_currentIndex d) =
              card_back (f_cards d ! f_currentIndex d))"
proof -
  have q1: "q_currentQuestionIndex s + 1 < length (questions qz) \<longrightarrow>
            q_currentQuestionIndex (nextQuestion s) = q_currentQuestionIndex s + 1
          \<and> q_answers (nextQuestion s) = q_answers s \<and> q_sent (nextQuestion s) = q_sent s"
    using assms(1) by (auto simp: nextQuestion_def showQuestion_def Let_def)
  have q2: "\<not> q_currentQuestionIndex s + 1 < length (questions qz) \<longrightarrow> nextQuestion s = s"
    using assms(1) by (auto simp: nextQuestion_def)
  have q3: "\<not> hasAnswered qz s \<longrightarrow> quiz_ui startApi answerApi ClickNext s = s"
    using assms(1) by (simp add: quiz_ui_def quiz_enabled_def)
  have q4: "quiz_enabled ClickNext s
            \<and> question_id (questions qz ! q_currentQuestionIndex s) \<notin> set Object_prototype_members \<longrightarrow>
            map_of (q_answers s) (question_id (questions qz ! q_currentQuestionIndex s)) \<noteq> None"
    using assms(1)
    by (auto simp: quiz_enabled_def hasAnswered_def answers_get_def split: option.splits)
  have f1: "f_currentIndex t + 1 < length (f_cards t) \<longrightarrow>
            f_currentIndex (nextCard anaApi t) = f_currentIndex t + 1
          \<and> f_sessionComplete (nextCard anaApi t) = f_sessionComplete t
          \<and> f_sent (nextCard anaApi t) = f_sent t"
    by (auto simp: nextCard_def goToCard_def Let_def)
  have f2: "\<not> f_currentIndex t + 1 < length (f_cards t) \<longrightarrow>
            f_currentIndex (nextCard anaApi t) = f_currentIndex t
          \<and> f_sessionComplete (nextCard anaApi t)
          \<and> f_sent (nextCard anaApi t) = f_sent t @
               [AnalyzeFlashCardSession
                  \<lparr>an_topic = (if f_topic t = [] then ''neuroanatomy'' else f_topic t),
                   total_score = f_totalScore t, max_score = length (f_cards t),
                   card_results = f_cardResults t\<rparr>]"
    by (auto simp: nextCard_def analyzeSession_def Let_def split: sum.splits)
  have f3: "\<not> f_showAnswer t \<or> f_sessionComplete t \<longrightarrow>
            flashcards_ui genApi evalApi anaApi ClickNextCard t = t"
    by (auto simp: flashcards_ui_def flashcards_enabled_def viewer_shown_def)
  have inv: "cursor_gated d" "results_in_card_order d"
    using fresh_deck_inv [OF assms(2)] by simp_all
  have f4: "flashcards_enabled ClickNextCard d \<longrightarrow>
            f_currentIndex d < length (f_cardResults d)
          \<and> cr_question (f_cardResults d ! f_currentIndex d) = card_front (f_cards d ! f_currentIndex d)
          \<and> cr_correct_answer (f_cardResults d ! f_currentIndex d) =
              card_back (f_cards d ! f_currentIndex d)"
  proof
    assume "flashcards_enabled ClickNextCard d"
    then have "f_currentIndex d < length (f_cardResults d)"
      using inv(1) by (simp add: flashcards_enabled_def cursor_gated_def)
    then show "f_currentIndex d < length (f_cardResults d)
          \<and> cr_question (f_cardResults d ! f_currentIndex d) = card_front (f_cards d ! f_currentIndex d)
          \<and> cr_correct_answer (f_cardResults d ! f_currentIndex d) =
              card_back (f_cards d ! f_currentIndex d)"
      using results_in_card_order_nth [OF inv(2)] by simp
  qed
  from q1 q2 q3 q4 f1 f2 f3 f4 show ?thesis by blast
qed

theorem advance_moves_cursor_within_items_witness:
  "q_currentQuestionIndex (nextQuestion quiz_q1_answered) = 1
   \<and> nextQuestion quiz_on_last = quiz_on_last
   \<and> map_of (q_answers quiz_q1_answered) ''q1'' \<noteq> None
   \<and> f_currentIndex (nextCard no_analysis fc_first_answered) = 1
   \<and> f_currentIndex (nextCard no_analysis fc_on_last) = 2
   \<and> f_sessionComplete (nextCard no_analysis fc_on_last)
   \<and> cr_question (f_cardResults fc_first_answered ! 0) = ''Q1''"
proof -
  have fresh: "fresh_deck fc_first_answered"
    unfolding fc_first_answered_def fc_opened_def
    by (intro fresh_deck_run fresh_deck.opened)
  have q: "q_quiz quiz_q1_answered = Some example_quiz"
    by (simp add: quiz_q1_answered_eq quiz_started_eq)
  note a = advance_moves_cursor_within_items
      [OF q fresh, where t = fc_first_answered and anaApi = no_analysis]
  note b = advance_moves_cursor_within_items
      [OF quiz_on_last_facts(1) fresh, where t = fc_on_last and anaApi = no_analysis]
  show ?thesis using a b
    by (simp add: quiz_q1_answered_eq quiz_started_eq quiz_defs example_quiz_def
        quiz_on_last_facts fc_on_last_facts fc_first_answered_eq fc_defs example_cards_def)
qed

text \<open>
  C3, as stated, fails for Quiz: in the example quiz just started, with nothing answered
  and the cursor on the first question, a click on the dot of the third question moves
  the cursor there.
\<close>

theorem question_dot_reaches_unanswered_counterexample:
  "q_answers quiz_started = [] \<and> q_currentQuestionIndex quiz_started = 0
   \<and> \<not> hasAnswered example_quiz quiz_started
   \<and> q_currentQuestionIndex
        (quiz_ui (\<lambda>_. Inl timeout_error) (\<lambda>_. Inl timeout_error) (ClickQuestionDot 2) quiz_started) = 2"
  by (simp add: quiz_started_eq quiz_defs example_quiz_def)

text \<open>
  C3, amended. In a FlashCards deck that was not restored from the saved record the
  cursor is never past the first card without a stored result, the answer is shown
  exactly when the card at the cursor has a stored result, result \<open>i\<close> was obtained on
  card \<open>i\<close>, and every event of the page keeps it so. \<open>goToCard\<close> on a card with a stored
  result restores the recorded answer, score and feedback and sends nothing. In Quiz
  every question dot is active: a click moves the cursor to that question, answered or
  not, shows its recorded answer and feedback if it has an entry of its own and an
  empty answer field otherwise, and sends nothing.
\<close>

theorem navigation_gating:
  assumes "fresh_deck d" and "idx < length (f_cardResults t)"
    and "q_quiz s = Some qz" and "i < length (questions qz)"
    and "q_currentQuestionIndex s < length (questions qz)"
  shows "f_currentIndex d \<le> length (f_cardResults d)
       \<and> f_showAnswer d = (f_currentIndex d < length (f_cardResults d))
       \<and> results_in_card_order d
       \<and> fresh_deck (flashcards_ui genApi evalApi anaApi e d)
       \<and> f_currentIndex (goToCard idx t) = idx
       \<and> f_userAnswer (goToCard idx t) = user_answer (f_cardResults t ! idx)
       \<and> f_showAnswer (goToCard idx t)
       \<and> map_option score (f_evaluation (goToCard idx t)) = Some (cr_score (f_cardResults t ! idx))
       \<and> map_option ev_feedback (f_evaluation (goToCard idx t)) =
            Some (cr_feedback (f_cardResults t ! idx))
       \<and> f_cardResults (goToCard idx t) = f_cardResults t
       \<and> f_totalScore (goToCard idx t) = f_totalScore t
       \<and> f_sent (goToCard idx t) = f_sent t
       \<and> quiz_ui startApi answerApi (ClickQuestionDot i) s = questionDot_onClick i s
       \<and> q_currentQuestionIndex (questionDot_onClick i s) = i
       \<and> q_selectedAnswer (questionDot_onClick i s) =
            (case answers_get (q_answers s) (question_id (questions qz ! i)) of
               OwnEntry a \<Rightarrow> qa_answer a | _ \<Rightarrow> [])
       \<and> q_feedback (questionDot_onClick i s) =
            (case answers_get (q_answers s) (question_id (questions qz ! i)) of
               OwnEntry a \<Rightarrow> qa_feedback a | _ \<Rightarrow> None)
       \<and> q_answers (questionDot_onClick i s) = q_answers s
       \<and> q_sent (questionDot_onClick i s) = q_sent s"
proof -
  have a: "f_currentIndex d \<le> length (f_cardResults d)
       \<and> f_showAnswer d = (f_currentIndex d < length (f_cardResults d))
       \<and> results_in_card_order d"
    using fresh_deck_inv [OF assms(1)] by (simp add: cursor_gated_def)
  have b: "fresh_deck (flashcards_ui genApi evalApi anaApi e d)"
    using assms(1) by (rule fresh_deck.event)
  have c: "f_currentIndex (goToCard idx t) = idx
       \<and> f_userAnswer (goToCard idx t) = user_answer (f_cardResults t ! idx)
       \<and> f_showAnswer (goToCard idx t)
       \<and> map_option score (f_evaluation (goToCard idx t)) = Some (cr_score (f_cardResults t ! idx))
       \<and> map_option ev_feedback (f_evaluation (goToCard idx t)) =
            Some (cr_feedback (f_cardResults t ! idx))
       \<and> f_cardResults (goToCard idx t) = f_cardResults t
       \<and> f_totalScore (goToCard idx t) = f_totalScore t
       \<and> f_sent (goToCard idx t) = f_sent t"
    using assms(2) by (simp add: goToCard_def Let_def)
  have dd: "quiz_ui startApi answerApi (ClickQuestionDot i) s = questionDot_onClick i s"
    using assms(3,4,5)
    by (simp add: quiz_ui_def quiz_enabled_def quiz_handler_def questionDot_onClick_def)
  have f: "q_currentQuestionIndex (questionDot_onClick i s) = i
       \<and> q_selectedAnswer (questionDot_onClick i s) =
            (case answers_get (q_answers s) (question_id (questions qz ! i)) of
               OwnEntry a \<Rightarrow> qa_answer a | _ \<Rightarrow> [])
       \<and> q_feedback (questionDot_onClick i s) =
            (case answers_get (q_answers s) (question_id (questions qz ! i)) of
               OwnEntry a \<Rightarrow> qa_feedback a | _ \<Rightarrow> None)
       \<and> q_answers (questionDot_onClick i s) = q_answers s
       \<and> q_sent (questionDot_onClick i s) = q_sent s"
    using assms(3,4) by (simp add: questionDot_onClick_def showQuestion_def Let_def)
  from a b c dd f show ?thesis by blast
qed

theorem navigation_gating_witness:
  "f_currentIndex fc_on_second \<le> length (f_cardResults fc_on_second)
   \<and> f_showAnswer fc_on_second = False
   \<and> f_userAnswer (goToCard 0 fc_on_second) = ''x''
   \<and> f_showAnswer (goToCard 0 fc_on_second)
   \<and> q_currentQuestionIndex (questionDot_onClick 2 quiz_started) = 2
   \<and> q_selectedAnswer (questionDot_onClick 2 quiz_started) = []"
proof -
  have fresh: "fresh_deck fc_on_second"
    unfolding fc_on_second_def fc_first_answered_def fc_opened_def
    by (intro fresh_deck_run fresh_deck.opened)
  have h: "0 < length (f_cardResults fc_on_second)" "q_quiz quiz_started = Some example_quiz"
    "2 < length (questions example_quiz)"
    "q_currentQuestionIndex quiz_started < length (questions example_quiz)"
    by (simp_all add: fc_on_second_eq fc_first_answered_eq quiz_started_eq Quiz_mount_def
        example_quiz_def)
  show ?thesis
    using navigation_gating [OF fresh h]
    by (simp add: fc_on_second_eq fc_first_answered_eq quiz_started_eq Quiz_mount_def
        example_quiz_def answers_get_def Object_prototype_members_def)
qed

subsection \<open>Clinical hints\<close>

text \<open>
  C4, as stated, fails: the page copies the budget from the service. With one hint left,
  a hint request answered with \<open>available_hints = 3\<close> raises the shown budget from 1 to
  3; and a session whose start response reports 5 hints starts at 5.
\<close>

theorem hint_budget_follows_server_counterexample:
  "c_availableHints clinical_one_left = 1
   \<and> hint_enabled clinical_one_left
   \<and> c_availableHints (clickHint (\<lambda>_. Inr reply_three_hints) clinical_one_left) = 3
   \<and> c_availableHints
        (startSession_clinical (\<lambda>_. Inr (example_case\<lparr>available_hints := Some 5\<rparr>))
           ClinicalCase_mount) = 5"
  by (simp add: clinical_one_left_def startSession_clinical_def ClinicalCase_mount_def
      example_case_def reply_three_hints_def clickHint_def hint_enabled_def sendMessage_def
      Let_def trim_def)

text \<open>
  C4, amended. The hint budget of the clinical page is 3 before a session starts and after
  a reset. When a session starts it is the \<open>available_hints\<close> of the start response (3
  when that is missing or 0). After every successful interaction, a hint request or a
  message, it is the \<open>available_hints\<close> of the response: the page does not count down
  itself. A failed hint request leaves the budget and the conversation as they were,
  clears the busy flag and shows the error. The hint button is disabled when the budget
  is 0, so then a click sends nothing and changes nothing; with a session, no request
  running and a budget other than 0 the click runs \<open>sendMessage\<close>, which has no budget
  check of its own.
\<close>

theorem hint_budget_mirrors_server:
  assumes "c_session s = Some session" and "\<not> c_loading s"
  shows "c_availableHints ClinicalCase_mount = 3
       \<and> c_availableHints (resetSession_clinical s) = 3
       \<and> c_availableHints (startSession_clinical (\<lambda>_. Inr started) u) =
            (case available_hints started of None \<Rightarrow> 3 | Some n \<Rightarrow> if n = 0 then 3 else n)
       \<and> c_availableHints (sendMessage (\<lambda>_. Inr res) requestHint (s\<lparr>c_input := ''x''\<rparr>)) =
            ia_available_hints res
       \<and> c_availableHints (sendMessage (\<lambda>_. Inr res) True s) = ia_available_hints res
       \<and> c_messages (sendMessage (\<lambda>_. Inr res) True s) =
            c_messages s @ [AiMessage True res] @
            (case completion res of None \<Rightarrow> []
             | Some cd \<Rightarrow> if session_complete res then [CompletionMessage cd] else [])
       \<and> c_availableHints (sendMessage (\<lambda>_. Inl err) True s) = c_availableHints s
       \<and> c_messages (sendMessage (\<lambda>_. Inl err) True s) = c_messages s
       \<and> c_loading (sendMessage (\<lambda>_. Inl err) True s) = False
       \<and> c_error (sendMessage (\<lambda>_. Inl err) True s) =
            Some (detail_or err ''Failed to process message'')
       \<and> (c_availableHints s = 0 \<longrightarrow> clickHint api s = s)
       \<and> (c_availableHints s \<noteq> 0 \<longrightarrow> clickHint api s = sendMessage api True s)"
  using assms
  by (simp add: ClinicalCase_mount_def resetSession_clinical_def startSession_clinical_def
      sendMessage_def clickHint_def hint_enabled_def Let_def trim_def is_space_def)

theorem hint_budget_mirrors_server_witness:
  "c_availableHints (sendMessage (\<lambda>_. Inr reply_three_hints) True clinical_one_left) = 3
   \<and> c_availableHints (sendMessage (\<lambda>_. Inl timeout_error) True clinical_one_left) = 1
   \<and> c_messages (sendMessage (\<lambda>_. Inl timeout_error) True clinical_one_left) =
        c_messages clinical_one_left
   \<and> clickHint (\<lambda>_. Inr reply_three_hints) (clinical_one_left\<lparr>c_availableHints := 0\<rparr>) =
        clinical_one_left\<lparr>c_availableHints := 0\<rparr>"
  using hint_budget_mirrors_server [where s = clinical_one_left and session = example_case
      and res = reply_three_hints and err = timeout_error]
    hint_budget_mirrors_server [where s = "clinical_one_left\<lparr>c_availableHints := 0\<rparr>"
      and session = example_case and api = "\<lambda>_. Inr reply_three_hints"]
  by (simp add: clinical_one_left_def startSession_clinical_def ClinicalCase_mount_def
      example_case_def reply_three_hints_def Let_def trim_def)

subsection \<open>Saving and reloading\<close>

text \<open>
  C5, as stated, fails: after the first card of the example deck is answered (one stored
  result, total score \<open>1/2\<close>, answer shown), what is in storage is the record of cards,
  topic and cursor; reloading from it gives a session without results, with total score
  0 and nothing to show, which is not the session that was saved.
\<close>

theorem reload_loses_results_counterexample:
  "length (f_cardResults fc_first_answered) = 1 \<and> f_totalScore fc_first_answered = 1 / 2
   \<and> f_showAnswer fc_first_answered
   \<and> f_localStorage fc_first_answered =
       Some (Some \<lparr>fd_cards = example_cards, fd_topic = [], fd_currentIndex = 0\<rparr>)
   \<and> f_cardResults (FlashCards_reload (f_localStorage fc_first_answered) never_throws) = []
   \<and> f_totalScore (FlashCards_reload (f_localStorage fc_first_answered) never_throws) = 0
   \<and> f_evaluation (FlashCards_reload (f_localStorage fc_first_answered) never_throws) = None
   \<and> FlashCards_reload (f_localStorage fc_first_answered) never_throws \<noteq> fc_first_answered"
proof -
  have "f_totalScore (FlashCards_reload (f_localStorage fc_first_answered) never_throws) = 0"
    by (simp add: FlashCards_reload_def FlashCards_mount_def)
  moreover have "f_totalScore fc_first_answered = 1 / 2"
    by (simp add: fc_first_answered_eq)
  ultimately have "FlashCards_reload (f_localStorage fc_first_answered) never_throws \<noteq> fc_first_answered"
    by auto
  then show ?thesis
    by (simp add: FlashCards_reload_def FlashCards_mount_def fc_first_answered_eq)
qed

text \<open>
  C5, amended. While there are cards and the session is not complete, FlashCards hands
  the record of cards, topic and cursor to the context, which keeps it and writes it
  under the one storage key. When the write succeeds, reloading gives the state a mount
  builds from that record: the cards, the topic and the cursor are those of the saved
  session. When the write throws, the failure is swallowed: the context has the new
  record, the storage keeps what it had, and a reload restores that older content. The
  stored results, the total score and the shown evaluation are never saved: after any
  reload they are empty. Without the key, or with \<^verbatim>\<open>null\<close> stored, there are no cards, that
  is no active session; starting a new session sets the context value to \<^verbatim>\<open>null\<close> and,
  when the write succeeds, the stored text too.
\<close>

theorem reload_restores_deck_topic_cursor:
  assumes "f_cards s \<noteq> []" and "\<not> f_sessionComplete s"
    and "d = \<lparr>fd_cards = f_cards s, fd_topic = f_topic s, fd_currentIndex = f_currentIndex s\<rparr>"
  shows "f_flashCardsData (FlashCards_effect s) = Some d
       \<and> (\<not> f_setItemThrows s (Some d) \<longrightarrow>
            f_localStorage (FlashCards_effect s) = Some (Some d)
          \<and> FlashCards_reload (f_localStorage (FlashCards_effect s)) throws =
              FlashCards_mount (Some d) (Some (Some d)) throws
          \<and> f_cards (FlashCards_reload (f_localStorage (FlashCards_effect s)) throws) = f_cards s
          \<and> f_topic (FlashCards_reload (f_localStorage (FlashCards_effect s)) throws) = f_topic s
          \<and> f_currentIndex (FlashCards_reload (f_localStorage (FlashCards_effect s)) throws) =
              f_currentIndex s)
       \<and> (f_setItemThrows s (Some d) \<longrightarrow>
            f_localStorage (FlashCards_effect s) = f_localStorage s
          \<and> FlashCards_reload (f_localStorage (FlashCards_effect s)) throws =
              FlashCards_reload (f_localStorage s) throws)
       \<and> f_cardResults (FlashCards_reload stored throws) = []
       \<and> f_totalScore (FlashCards_reload stored throws) = 0
       \<and> f_evaluation (FlashCards_reload stored throws) = None
       \<and> \<not> f_showAnswer (FlashCards_reload stored throws)
       \<and> f_cards (FlashCards_reload None throws) = []
       \<and> f_cards (FlashCards_reload (Some None) throws) = []
       \<and> f_flashCardsData (startNewSession recommended s) = None
       \<and> (\<not> f_setItemThrows s None \<longrightarrow> f_localStorage (startNewSession recommended s) = Some None)
       \<and> (f_setItemThrows s None \<longrightarrow>
            f_localStorage (startNewSession recommended s) = f_localStorage s)"
  using assms
  by (simp add: FlashCards_reload_def FlashCards_mount_def FlashCards_effect_def
      setFlashCardsData_def flashCardsData_init_def startNewSession_def)

theorem reload_restores_deck_topic_cursor_witness:
  "f_cards (FlashCards_reload (f_localStorage (FlashCards_effect fc_first_answered)) never_throws) =
     example_cards
   \<and> f_topic (FlashCards_reload (f_localStorage (FlashCards_effect fc_first_answered)) never_throws) = []
   \<and> f_currentIndex
       (FlashCards_reload (f_localStorage (FlashCards_effect fc_first_answered)) never_throws) = 0
   \<and> f_cardResults
       (FlashCards_reload (f_localStorage (FlashCards_effect fc_first_answered)) never_throws) = []
   \<and> f_flashCardsData (FlashCards_effect fc_storage_full) =
       Some \<lparr>fd_cards = example_cards, fd_topic = [], fd_currentIndex = 1\<rparr>
   \<and> f_localStorage (FlashCards_effect fc_storage_full) = None
   \<and> f_cards (FlashCards_reload (f_localStorage (FlashCards_effect fc_storage_full)) always_throws) = []"
  using reload_restores_deck_topic_cursor [where s = fc_first_answered and throws = never_throws,
      OF _ _ refl]
    reload_restores_deck_topic_cursor [where s = fc_storage_full and throws = always_throws,
      OF _ _ refl]
  by (simp add: fc_first_answered_eq fc_storage_full_facts example_cards_def never_throws_def
      always_throws_def FlashCards_reload_def FlashCards_mount_def flashCardsData_init_def)

subsection \<open>A failed evaluation request\<close>

text \<open>
  C6. When the remote evaluation of a submitted answer fails, nothing is recorded: in
  Quiz the \<open>answers\<close> object, the shown score, the feedback and the cursor are as
  before, in FlashCards the stored results, the total score and the shown evaluation are
  as before. The busy flag (\<open>loading\<close>, \<open>evaluating\<close>), which the handler sets before the
  request, is off again. The failure is shown to the user: Quiz alerts the detail of the
  error response, or \<open>Failed to submit answer\<close> when there is none, as for a timeout;
  FlashCards shows \<open>Failed to evaluate answer\<close>. Exactly one request was issued, so there
  is no retry.
\<close>

theorem submitAnswer_remote_failure:
  assumes "trim (q_selectedAnswer s) \<noteq> []" and "q_quiz s = Some qz" and "\<not> q_loading s"
    and "q_currentQuestionIndex s < length (questions qz)"
    and "trim (f_userAnswer t) \<noteq> []" and "\<not> f_evaluating t"
    and "f_currentIndex t < length (f_cards t)"
  shows "q_answers (submitAnswer_quiz (\<lambda>_. Inl err) s) = q_answers s
       \<and> quiz_displayScore qz (submitAnswer_quiz (\<lambda>_. Inl err) s) = quiz_displayScore qz s
       \<and> q_feedback (submitAnswer_quiz (\<lambda>_. Inl err) s) = q_feedback s
       \<and> q_currentQuestionIndex (submitAnswer_quiz (\<lambda>_. Inl err) s) = q_currentQuestionIndex s
       \<and> q_loading (submitAnswer_quiz (\<lambda>_. Inl err) s) = False
       \<and> q_alerts (submitAnswer_quiz (\<lambda>_. Inl err) s) =
           q_alerts s @ [detail_or err ''Failed to submit answer'']
       \<and> (err_detail err = None \<longrightarrow>
            q_alerts (submitAnswer_quiz (\<lambda>_. Inl err) s) =
              q_alerts s @ [DetailStr ''Failed to submit answer''])
       \<and> length (q_sent (submitAnswer_quiz (\<lambda>_. Inl err) s)) = length (q_sent s) + 1
       \<and> f_cardResults (submitAnswer_fc (\<lambda>_. Inl err) t) = f_cardResults t
       \<and> f_totalScore (submitAnswer_fc (\<lambda>_. Inl err) t) = f_totalScore t
       \<and> f_showAnswer (submitAnswer_fc (\<lambda>_. Inl err) t) = f_showAnswer t
       \<and> f_evaluation (submitAnswer_fc (\<lambda>_. Inl err) t) = f_evaluation t
       \<and> f_currentIndex (submitAnswer_fc (\<lambda>_. Inl err) t) = f_currentIndex t
       \<and> f_evaluating (submitAnswer_fc (\<lambda>_. Inl err) t) = False
       \<and> f_error (submitAnswer_fc (\<lambda>_. Inl err) t) = Some (DetailStr ''Failed to evaluate answer'')
       \<and> length (f_sent (submitAnswer_fc (\<lambda>_. Inl err) t)) = length (f_sent t) + 1"
  using assms
  by (simp add: submitAnswer_quiz_def submitAnswer_fc_def Let_def quiz_displayScore_def
      quiz_score_def correctCount_def detail_or_def)

theorem submitAnswer_remote_failure_witness:
  "q_answers (submitAnswer_quiz (\<lambda>_. Inl timeout_error) quiz_q1_selected) = []
   \<and> q_loading (submitAnswer_quiz (\<lambda>_. Inl timeout_error) quiz_q1_selected) = False
   \<and> q_alerts (submitAnswer_quiz (\<lambda>_. Inl timeout_error) quiz_q1_selected) =
        [DetailStr ''Failed to submit answer'']
   \<and> f_cardResults (submitAnswer_fc (\<lambda>_. Inl timeout_error) fc_typed) = []
   \<and> f_totalScore (submitAnswer_fc (\<lambda>_. Inl timeout_error) fc_typed) = 0
   \<and> f_evaluating (submitAnswer_fc (\<lambda>_. Inl timeout_error) fc_typed) = False
   \<and> f_error (submitAnswer_fc (\<lambda>_. Inl timeout_error) fc_typed) =
        Some (DetailStr ''Failed to evaluate answer'')"
  using submitAnswer_remote_failure [where s = quiz_q1_selected and qz = example_quiz
      and t = fc_typed and err = timeout_error]
  by (simp add: quiz_q1_selected_eq quiz_started_eq Quiz_mount_def example_quiz_def fc_typed_eq
      fc_first_answered_eq example_cards_def timeout_error_def trim_def is_space_def detail_or_def)

subsection \<open>Scores\<close>




subsection \<open>Starting\<close>

text \<open>
  C8, as stated, fails: typing 100 into the number field of Quiz and pressing Start sends a
  start request with \<open>num_questions = 100\<close>; typing \<open>-2\<close> in FlashCards and pressing
  Generate sends \<open>num_cards = -2\<close>. Neither is stopped before the request.
\<close>

theorem out_of_range_count_is_sent_counterexample:
  "q_sent (quiz_run (\<lambda>_. Inl timeout_error) (\<lambda>_. Inl timeout_error)
             [ChangeNumQuestions (Some 100), ClickStartQuiz] (Quiz_mount ''u1'')) =
     [StartQuiz \<lparr>sq_user_id = ''u1'', sq_topic = None, sq_difficulty_level = ''undergrad'',
                 sq_system_filter = None, num_questions = 100\<rparr>]
   \<and> f_sent (flashcards_run (\<lambda>_. Inl timeout_error) (\<lambda>_. Inl timeout_error) no_analysis
               [ChangeNumCards (Some (- 2)), ClickGenerate] fc_opened) =
     [GenerateFlashCards \<lparr>gr_topic = None, num_cards = - 2, gr_difficulty_level = ''undergrad''\<rparr>]"
  by (simp add: quiz_defs fc_defs fc_opened_def setNumCards_onChange_def timeout_error_def)

text \<open>
  C8, amended. Starting a quiz or generating flash cards checks nothing locally: the
  request is always sent and carries the count held in the number field. The field holds
  5 in Quiz and 10 in FlashCards when the page mounts, and after a change any integer
  the field parsed, with 5 (Quiz) or 10 (FlashCards) in place of 0 or an unparsable
  entry. When the service fails or rejects the request, Quiz shows the message, stays
  without a quiz and keeps its answers and cursor; FlashCards shows the error and
  empties its cards.
\<close>

theorem start_sends_count_unchecked:
  "q_sent (startQuiz api s) = q_sent s @ [StartQuiz (startQuiz_request s)]
   \<and> num_questions (startQuiz_request s) = q_numQuestions s
   \<and> q_numQuestions (Quiz_mount userId) = 5
   \<and> quiz_handler api answerApi (ChangeNumQuestions parsed) s = setNumQuestions_onChange parsed s
   \<and> q_numQuestions (setNumQuestions_onChange (Some n) s) = (if n = 0 then 5 else n)
   \<and> q_numQuestions (setNumQuestions_onChange None s) = 5
   \<and> q_quiz (startQuiz (\<lambda>_. Inl err) s) = q_quiz s
   \<and> q_answers (startQuiz (\<lambda>_. Inl err) s) = q_answers s
   \<and> q_currentQuestionIndex (startQuiz (\<lambda>_. Inl err) s) = q_currentQuestionIndex s
   \<and> q_starting (startQuiz (\<lambda>_. Inl err) s) = False
   \<and> q_alerts (startQuiz (\<lambda>_. Inl err) s) = q_alerts s @ [DetailStr (startQuiz_msg err)]
   \<and> f_sent (generate genApi t) = f_sent t @
        [GenerateFlashCards
           \<lparr>gr_topic = (if trim (f_topic t) = [] then None else Some (trim (f_topic t))),
            num_cards = f_numCards t, gr_difficulty_level = f_difficulty t\<rparr>]
   \<and> f_numCards (FlashCards_mount ctx stored throws) = 10
   \<and> flashcards_handler genApi evalApi anaApi (ChangeNumCards parsed) t =
        setNumCards_onChange parsed t
   \<and> f_numCards (setNumCards_onChange (Some n) t) = (if n = 0 then 10 else n)
   \<and> f_numCards (setNumCards_onChange None t) = 10
   \<and> f_cards (generate (\<lambda>_. Inl err) t) = []
   \<and> f_cardResults (generate (\<lambda>_. Inl err) t) = f_cardResults t
   \<and> f_loading (generate (\<lambda>_. Inl err) t) = False
   \<and> f_error (generate (\<lambda>_. Inl err) t) = Some (detail_or err ''Failed to generate flash cards'')"
  by (auto simp: startQuiz_def startQuiz_request_def setNumQuestions_onChange_def generate_def
      setFlashCardsData_def Let_def Quiz_mount_def FlashCards_mount_def quiz_handler_def
      flashcards_handler_def setNumCards_onChange_def split: sum.splits)

theorem start_sends_count_unchecked_witness:
  "q_sent (startQuiz (\<lambda>_. Inl timeout_error)
             (setNumQuestions_onChange (Some 31) (Quiz_mount ''u1''))) =
     [StartQuiz \<lparr>sq_user_id = ''u1'', sq_topic = None, sq_difficulty_level = ''undergrad'',
                 sq_system_filter = None, num_questions = 31\<rparr>]
   \<and> q_quiz (startQuiz (\<lambda>_. Inl timeout_error)
               (setNumQuestions_onChange (Some 31) (Quiz_mount ''u1''))) = None
   \<and> q_alerts (startQuiz (\<lambda>_. Inl timeout_error)
                 (setNumQuestions_onChange (Some 31) (Quiz_mount ''u1''))) =
       [DetailStr ''Request timeout. Please try again.'']
   \<and> f_numCards (setNumCards_onChange (Some 0) fc_opened) = 10
   \<and> f_numCards (setNumCards_onChange (Some 31) fc_opened) = 31
   \<and> f_numCards (setNumCards_onChange None fc_opened) = 10"
  using start_sends_count_unchecked [where s = "setNumQuestions_onChange (Some 31) (Quiz_mount ''u1'')"
      and api = "\<lambda>_. Inl timeout_error" and err = timeout_error and t = fc_opened and n = 0]
    start_sends_count_unchecked [where s = "setNumQuestions_onChange (Some 31) (Quiz_mount ''u1'')"
      and api = "\<lambda>_. Inl timeout_error" and err = timeout_error and t = fc_opened and n = 31]
  by (simp add: Quiz_mount_def startQuiz_request_def startQuiz_msg_def timeout_error_def trim_def
      setNumQuestions_onChange_def)

subsection \<open>Teaching requests\<close>

lemma answer_all_sent:
  assumes "t_session s \<noteq> None" "\<not> t_loading s" "\<forall>a \<in> set as. trim a \<noteq> []"
  shows "map previous_responses (t_sent (answer_all (\<lambda>req. Inr (respond req)) as s)) =
         map previous_responses (t_sent s) @
         map (\<lambda>k. map qp_answer (t_qaPairs s) @ map trim (take (Suc k) as)) [0..<length as]"
  using assms
proof (induction as arbitrary: s)
  case Nil
  then show ?case by simp
next
  case (Cons a as)
  let ?s' = "submitAnswer_teaching (\<lambda>req. Inr (respond req)) (s\<lparr>t_currentAnswer := a\<rparr>)"
  from Cons.prems obtain sess where sess: "t_session s = Some sess" by auto
  have a: "trim a \<noteq> []" using Cons.prems by simp
  have s1: "t_session ?s' \<noteq> None" "\<not> t_loading ?s'"
    and qa: "map qp_answer (t_qaPairs ?s') = map qp_answer (t_qaPairs s) @ [trim a]"
    and sent: "map previous_responses (t_sent ?s') =
               map previous_responses (t_sent s) @ [map qp_answer (t_qaPairs s) @ [trim a]]"
    using sess a Cons.prems(2)
    by (simp_all add: submitAnswer_teaching_def updatedResponses_def Let_def)
  have "map previous_responses (t_sent (answer_all (\<lambda>req. Inr (respond req)) as ?s')) =
        map previous_responses (t_sent ?s') @
        map (\<lambda>k. map qp_answer (t_qaPairs ?s') @ map trim (take (Suc k) as)) [0..<length as]"
    using Cons.IH [OF s1] Cons.prems(3) by simp
  moreover have "map (\<lambda>k. map qp_answer (t_qaPairs s) @ map trim (take (Suc k) (a # as))) [0..<length (a # as)]
      = (map qp_answer (t_qaPairs s) @ [trim a]) #
        map (\<lambda>k. map qp_answer (t_qaPairs ?s') @ map trim (take (Suc k) as)) [0..<length as]"
    by (simp add: upt_conv_Cons map_Suc_upt [symmetric] qa del: upt_Suc)
  ultimately show ?case using sent by simp
qed

text \<open>
  C9. In a teaching session the first request carries an empty \<open>previous_responses\<close>;
  when the learner then submits the answers \<open>as\<close> one after the other (all accepted by
  the service), the request for the \<open>k\<close>-th answer carries the first \<open>k\<close> answers,
  trimmed, in order. In any state, whatever the service replies, the request of
  \<open>submitAnswer\<close> carries the answers of all recorded question-answer pairs followed by
  the newly submitted one.
\<close>

theorem teach_requests_carry_all_answers:
  assumes "trim (t_topic s) \<noteq> []" and "\<forall>a \<in> set as. trim a \<noteq> []"
    and "trim (t_currentAnswer u) \<noteq> []" and "t_session u \<noteq> None" and "\<not> t_loading u"
  shows "map previous_responses
           (t_sent (answer_all (\<lambda>req. Inr (respond req)) as
                      (startSession_teaching (\<lambda>req. Inr (respond req)) s))) =
         map previous_responses (t_sent s) @
         [] # map (\<lambda>k. map trim (take (Suc k) as)) [0..<length as]
       \<and> map previous_responses (t_sent (submitAnswer_teaching api u)) =
         map previous_responses (t_sent u) @ [map qp_answer (t_qaPairs u) @ [trim (t_currentAnswer u)]]"
proof -
  let ?api = "\<lambda>req. Inr (respond req)"
  let ?s1 = "startSession_teaching ?api s"
  have s1: "t_session ?s1 \<noteq> None" "\<not> t_loading ?s1" "t_qaPairs ?s1 = []"
    and sent: "map previous_responses (t_sent ?s1) = map previous_responses (t_sent s) @ [[]]"
    using assms(1) by (simp_all add: startSession_teaching_def Let_def)
  have "map previous_responses (t_sent (answer_all ?api as ?s1)) =
        map previous_responses (t_sent s) @ [] # map (\<lambda>k. map trim (take (Suc k) as)) [0..<length as]"
    using answer_all_sent [OF s1(1,2) assms(2), of respond] by (simp add: s1(3) sent)
  moreover have "map previous_responses (t_sent (submitAnswer_teaching api u)) =
      map previous_responses (t_sent u) @ [map qp_answer (t_qaPairs u) @ [trim (t_currentAnswer u)]]"
    using assms(3,4,5)
    by (auto simp: submitAnswer_teaching_def updatedResponses_def Let_def split: sum.splits)
  ultimately show ?thesis by blast
qed

theorem teach_requests_carry_all_answers_witness:
  "map previous_responses
     (t_sent (answer_all (\<lambda>req. Inr (tutor req)) [''a'', '' b '', ''c'']
                (startSession_teaching (\<lambda>req. Inr (tutor req)) teaching_ready))) =
   [[], [''a''], [''a'', ''b''], [''a'', ''b'', ''c'']]"
  using teach_requests_carry_all_answers [of teaching_ready "[''a'', '' b '', ''c'']"
      "(answer_all (\<lambda>req. Inr (tutor req)) [''a'']
          (startSession_teaching (\<lambda>req. Inr (tutor req)) teaching_ready))\<lparr>t_currentAnswer := ''z''\<rparr>"
      tutor "\<lambda>req. Inr (tutor req)"]
  by (simp add: teaching_ready_def Teaching_mount_def startSession_teaching_def
      submitAnswer_teaching_def updatedResponses_def Let_def trim_def is_space_def
      upt_conv_Cons)

subsection \<open>Revisiting a flash card\<close>

text \<open>
  \<open>goToCard\<close> on an index with a stored result shows that result's score and feedback
  with \<open>is_correct\<close> and \<open>is_partial\<close> computed from the score; in a deck that was not
  restored from the saved record the result at index \<open>i\<close> is the one obtained on card
  \<open>i\<close>.
\<close>

lemma goToCard_flags_from_score:
  assumes "i < length (f_cardResults t)"
  shows "f_evaluation (goToCard i t) =
           Some \<lparr>score = cr_score (f_cardResults t ! i),
                 ev_feedback = cr_feedback (f_cardResults t ! i),
                 is_correct = (cr_score (f_cardResults t ! i) \<ge> 1),
                 is_partial = (0 < cr_score (f_cardResults t ! i)
                               \<and> cr_score (f_cardResults t ! i) < 1)\<rparr>"
  using assms by (simp add: goToCard_def Let_def)

text \<open>
  C10 says that going back to an answered card shows its evaluation again, rebuilt from
  the stored score. \<open>goToCard\<close> looks for the result at the index of the card, while
  \<open>submitAnswer\<close> appends results in the order of the answers; after a mount from the
  saved record the two differ. In the example the page is reloaded with the cursor on
  the second card and that card is answered with full marks (its result is stored at
  index 0). Going to the second card, the answered one, shows no evaluation and an empty
  answer box; Previous shows the first card, \<open>Q1\<close>, with the evaluation obtained on
  \<open>Q2\<close>; and Previous followed by Next is back on the second card without an evaluation.
\<close>

theorem revisit_after_reload:
  "f_currentIndex fc_second_answered = 1
   \<and> map cr_question (f_cardResults fc_second_answered) = [''Q2'']
   \<and> f_evaluation (goToCard 1 fc_second_answered) = None
   \<and> f_showAnswer (goToCard 1 fc_second_answered) = False
   \<and> card_front (f_cards fc_second_answered ! 0) = ''Q1''
   \<and> f_evaluation
        (flashcards_ui deck_service (\<lambda>_. Inr full_marks) no_analysis ClickPrevCard fc_second_answered) =
      Some \<lparr>score = 1, ev_feedback = ''good'', is_correct = True, is_partial = False\<rparr>
   \<and> f_currentIndex
        (flashcards_ui deck_service (\<lambda>_. Inr full_marks) no_analysis ClickPrevCard fc_second_answered) = 0
   \<and> f_evaluation
        (flashcards_run deck_service (\<lambda>_. Inr full_marks) no_analysis [ClickPrevCard, ClickNextCard]
           fc_second_answered) = None
   \<and> f_currentIndex
        (flashcards_run deck_service (\<lambda>_. Inr full_marks) no_analysis [ClickPrevCard, ClickNextCard]
           fc_second_answered) = 1"
  by (simp add: fc_second_answered_def fc_reloaded_eq fc_defs
      example_cards_def never_throws_def full_marks_def)

end
